theory Spec2Isabelle
  imports Main "HOL-Library.Code_Target_Numeral"
begin

section \<open>JavaScript values and string primitives\<close>

text \<open>
  Strings are lists of 8-bit characters (the Latin-1 range of JavaScript's code units).
  A value that may be \<open>null\<close> or \<open>undefined\<close> is a \<open>string option\<close>; its truthiness is
  JavaScript's: \<open>null\<close>, \<open>undefined\<close> and the empty string are falsy.
\<close>

definition truthy :: "string option \<Rightarrow> bool" where
  "truthy v = (case v of None \<Rightarrow> False | Some s \<Rightarrow> s \<noteq> [])"

text \<open>Interpolation of a possibly undefined value into a template literal.\<close>

definition tpl :: "string option \<Rightarrow> string" where
  "tpl v = (case v of None \<Rightarrow> ''undefined'' | Some s \<Rightarrow> s)"

subsection \<open>Strings\<close>

text \<open>JavaScript's white space and line terminators (what \<^verbatim>\<open>\s\<close> and \<^verbatim>\<open>trim\<close> use), in Latin-1.\<close>

definition isSpace :: "char \<Rightarrow> bool" where
  "isSpace c = (c \<in> {CHR 0x09, CHR 0x0A, CHR 0x0B, CHR 0x0C, CHR 0x0D, CHR 0x20, CHR 0xA0})"

definition isLineTerminator :: "char \<Rightarrow> bool" where
  "isLineTerminator c = (c \<in> {CHR 0x0A, CHR 0x0D})"

definition isDigit :: "char \<Rightarrow> bool" where
  "isDigit c = (c \<in> set ''0123456789'')"

definition isUpper :: "char \<Rightarrow> bool" where
  "isUpper c = (c \<in> set ''ABCDEFGHIJKLMNOPQRSTUVWXYZ'')"

definition isLower :: "char \<Rightarrow> bool" where
  "isLower c = (c \<in> set ''abcdefghijklmnopqrstuvwxyz'')"

text \<open>\<^verbatim>\<open>\w\<close> is \<^verbatim>\<open>[A-Za-z0-9_]\<close>.\<close>

definition isWordChar :: "char \<Rightarrow> bool" where
  "isWordChar c = (isDigit c \<or> isUpper c \<or> isLower c \<or> c = CHR ''_'')"

text \<open>\<^verbatim>\<open>s.trim()\<close>\<close>

definition trim :: "string \<Rightarrow> string" where
  "trim s = rev (dropWhile isSpace (rev (dropWhile isSpace s)))"

text \<open>\<^verbatim>\<open>s.split(c)\<close> for a separator of one character: the empty string gives \<open>[""]\<close>.\<close>

fun splitChar :: "char \<Rightarrow> string \<Rightarrow> string list" where
  "splitChar c [] = [[]]"
| "splitChar c (x # xs) =
     (if x = c then [] # splitChar c xs
      else (case splitChar c xs of [] \<Rightarrow> [[x]] | f # fs \<Rightarrow> (x # f) # fs))"

text \<open>
  \<^verbatim>\<open>s.split(/\s+/)\<close>: every maximal run of white space separates two fields, so leading
  or trailing white space gives an empty first or last field, and the empty string
  gives \<open>[""]\<close>.
\<close>

function splitWs :: "string \<Rightarrow> string list" where
  "splitWs [] = [[]]"
| "splitWs (x # xs) =
     (if isSpace x then [] # splitWs (dropWhile isSpace xs)
      else (case splitWs xs of [] \<Rightarrow> [[x]] | f # fs \<Rightarrow> (x # f) # fs))"
  by pat_completeness auto
termination
  by (relation "measure length") (auto simp: le_imp_less_Suc length_dropWhile_le)

text \<open>\<^verbatim>\<open>xs.join(sep)\<close>\<close>

fun joinWith :: "string \<Rightarrow> string list \<Rightarrow> string" where
  "joinWith sep [] = []"
| "joinWith sep [x] = x"
| "joinWith sep (x # y # ys) = x @ sep @ joinWith sep (y # ys)"

text \<open>\<^verbatim>\<open>xs[i]\<close>: \<open>undefined\<close> out of range.\<close>

definition nth_opt :: "'a list \<Rightarrow> nat \<Rightarrow> 'a option" where
  "nth_opt xs i = (if i < length xs then Some (xs ! i) else None)"

text \<open>\<^verbatim>\<open>s.lastIndexOf(c)\<close> for a one-character \<open>c\<close>: \<open>-1\<close> when \<open>c\<close> does not occur.\<close>

definition lastIndexOf :: "char \<Rightarrow> string \<Rightarrow> int" where
  "lastIndexOf c s =
     (case filter (\<lambda>i. s ! i = c) (rev [0..<length s]) of [] \<Rightarrow> - 1 | i # _ \<Rightarrow> int i)"

text \<open>\<^verbatim>\<open>s.substring(a, b)\<close> and \<^verbatim>\<open>s.substring(a)\<close>: negative indices count as 0, and
  the two indices are swapped when \<open>a > b\<close>.\<close>

definition substring :: "string \<Rightarrow> int \<Rightarrow> int \<Rightarrow> string" where
  "substring s a b =
     (let lo = nat (min a b); hi = nat (max a b) in take (hi - lo) (drop lo s))"

definition substringFrom :: "string \<Rightarrow> int \<Rightarrow> string" where
  "substringFrom s a = drop (nat a) s"

text \<open>\<^verbatim>\<open>s.indexOf(t) >= 0\<close>\<close>

fun containsStr :: "string \<Rightarrow> string \<Rightarrow> bool" where
  "containsStr [] t = (t = [])"
| "containsStr (x # xs) t = (take (length t) (x # xs) = t \<or> containsStr xs t)"

text \<open>A non-negative number in a template literal or a string concatenation.\<close>

fun showNat :: "nat \<Rightarrow> string" where
  "showNat n =
     (if n < 10 then [''0123456789'' ! n]
      else showNat (n div 10) @ [''0123456789'' ! (n mod 10)])"

declare showNat.simps [simp del]

subsection \<open>Numbers\<close>

text \<open>
  A port that the port finder answers is a number or a string, as the finder likes:
  the values that \<open>proxyDebugPort\<close> and \<open>proxyAppPort\<close> (typed \<open>any\<close>) can hold. Equality of
  two such values is JavaScript's \<^verbatim>\<open>===\<close>: a number never equals a string.
\<close>

datatype jsval = Num nat | Str string

text \<open>\<^verbatim>\<open>`${v}`\<close> and \<^verbatim>\<open>v + ":"\<close>\<close>

fun jsText :: "jsval \<Rightarrow> string" where
  "jsText (Num n) = showNat n"
| "jsText (Str s) = s"

text \<open>\<^verbatim>\<open>v + 1\<close>: addition on a number, concatenation on a string.\<close>

fun plusOne :: "jsval \<Rightarrow> jsval" where
  "plusOne (Num n) = Num (n + 1)"
| "plusOne (Str s) = Str (s @ ''1'')"

text \<open>\<^verbatim>\<open>if (v)\<close>\<close>

fun truthyVal :: "jsval \<Rightarrow> bool" where
  "truthyVal (Num n) = (n \<noteq> 0)"
| "truthyVal (Str s) = (s \<noteq> [])"

text \<open>
  \<^verbatim>\<open>Number(s)\<close> for a string, up to its sign, which the test for an integer does not need:
  not a number, infinite, or the digits \<open>m\<close> and the decimal exponent \<open>k\<close> of the value
  \<open>m * 10 ^ k\<close> that the text denotes. The text is trimmed; the empty text is 0; a text
  that starts with \<^verbatim>\<open>0x\<close>, \<^verbatim>\<open>0o\<close> or \<^verbatim>\<open>0b\<close> (in either case) is a hexadecimal, octal or binary
  integer without sign; any other text is a decimal literal with an optional sign, an
  optional fraction and an optional exponent, or \<^verbatim>\<open>Infinity\<close>.
\<close>

datatype numberValue = NaN | Infinite | Finite nat int

definition digitVal :: "char \<Rightarrow> nat" where
  "digitVal c =
     (case map_of (zip ''0123456789abcdefABCDEF''
                       [0, 1, 2, 3, 4, 5, 6, 7, 8, 9, 10, 11, 12, 13, 14, 15, 10, 11, 12, 13, 14, 15])
             c of
        None \<Rightarrow> 0 | Some v \<Rightarrow> v)"

definition digitsVal :: "nat \<Rightarrow> string \<Rightarrow> nat" where
  "digitsVal base ds = foldl (\<lambda>acc c. acc * base + digitVal c) 0 ds"

definition nonDecimal :: "nat \<Rightarrow> string \<Rightarrow> string \<Rightarrow> numberValue" where
  "nonDecimal base allowed ds =
     (if ds \<noteq> [] \<and> list_all (\<lambda>c. c \<in> set allowed) ds then Finite (digitsVal base ds) 0 else NaN)"

definition strDecimal :: "string \<Rightarrow> numberValue" where
  "strDecimal t =
     (let u = (case t of [] \<Rightarrow> [] | c # r \<Rightarrow> if c = CHR ''+'' \<or> c = CHR ''-'' then r else t);
          ip = takeWhile isDigit u;
          r1 = dropWhile isDigit u;
          fp = (case r1 of [] \<Rightarrow> [] | c # r \<Rightarrow> if c = CHR ''.'' then takeWhile isDigit r else []);
          r2 = (case r1 of [] \<Rightarrow> [] | c # r \<Rightarrow> if c = CHR ''.'' then dropWhile isDigit r else r1)
      in if u = ''Infinity'' then Infinite
         else if ip = [] \<and> fp = [] then NaN
         else
           (case r2 of
              [] \<Rightarrow> Finite (digitsVal 10 (ip @ fp)) (- int (length fp))
            | c # r \<Rightarrow>
                if c = CHR ''e'' \<or> c = CHR ''E'' then
                  (let neg = (case r of [] \<Rightarrow> False | d # _ \<Rightarrow> d = CHR ''-'');
                       ds = (case r of [] \<Rightarrow> []
                             | d # r' \<Rightarrow> if d = CHR ''+'' \<or> d = CHR ''-'' then r' else r)
                   in if ds \<noteq> [] \<and> list_all isDigit ds then
                        Finite (digitsVal 10 (ip @ fp))
                          ((if neg then - int (digitsVal 10 ds) else int (digitsVal 10 ds))
                             - int (length fp))
                      else NaN)
                else NaN))"

definition stringToNumber :: "string \<Rightarrow> numberValue" where
  "stringToNumber s =
     (let t = trim s in
      case t of
        [] \<Rightarrow> Finite 0 0
      | [c] \<Rightarrow> strDecimal t
      | c0 # c1 # ds \<Rightarrow>
          if c0 = CHR ''0'' \<and> (c1 = CHR ''x'' \<or> c1 = CHR ''X'') then
            nonDecimal 16 ''0123456789abcdefABCDEF'' ds
          else if c0 = CHR ''0'' \<and> (c1 = CHR ''o'' \<or> c1 = CHR ''O'') then
            nonDecimal 8 ''01234567'' ds
          else if c0 = CHR ''0'' \<and> (c1 = CHR ''b'' \<or> c1 = CHR ''B'') then
            nonDecimal 2 ''01'' ds
          else strDecimal t)"

text \<open>The exponent of the greatest power of two that is at most \<open>n\<close> (0 for \<open>n = 0\<close>).\<close>

fun floorLog2 :: "nat \<Rightarrow> nat" where
  "floorLog2 n = (if n < 2 then 0 else Suc (floorLog2 (n div 2)))"

declare floorLog2.simps [simp del]

text \<open>
  Whether the quotient \<open>a / b\<close> (\<open>b > 0\<close>), rounded to the nearest double-precision number
  with ties to the even mantissa, is a finite integer. From \<open>2 ^ 1024 - 2 ^ 970\<close> on, the
  value rounds to infinity; from \<open>2 ^ 52\<close> on, every double is an integer; below, with \<open>n\<close>
  the integer part, the value rounds down to \<open>n\<close> when it is at most half a step above \<open>n\<close>
  (the step above \<open>n > 0\<close> is \<open>2 ^ (floorLog2 n - 52)\<close>, above 0 it is \<open>2 ^ - 1074\<close>) and up to
  \<open>n + 1\<close> when it is at most half a step below \<open>n + 1\<close> (the step below a power of two is half
  the step above it); an integer below \<open>2 ^ 53\<close> has an even mantissa, so a tie goes to it.
\<close>

definition roundsToInteger :: "nat \<Rightarrow> nat \<Rightarrow> bool" where
  "roundsToInteger a b =
     (if a = 0 then True
      else if (2 ^ 1024 - 2 ^ 970) * b \<le> a then False
      else if 2 ^ 52 * b \<le> a then True
      else
        (let n = a div b; r = a mod b; m = n + 1; e = floorLog2 m in
         if r = 0 then True
         else (if n = 0 then r * 2 ^ 1075 \<le> b else r * 2 ^ (53 - floorLog2 n) \<le> b)
              \<or> (b - r) * 2 ^ ((if m = 2 ^ e then 54 else 53) - e) \<le> b))"

text \<open>\<^verbatim>\<open>Number.isInteger(Number(s))\<close>\<close>

definition numberIsInteger :: "string \<Rightarrow> bool" where
  "numberIsInteger s =
     (case stringToNumber s of
        NaN \<Rightarrow> False
      | Infinite \<Rightarrow> False
      | Finite m k \<Rightarrow> roundsToInteger (m * 10 ^ nat k) (10 ^ nat (- k)))"

subsection \<open>Regular expressions\<close>

text \<open>
  The fragment of JavaScript's regular expressions that the sources use: literals,
  greedy \<^verbatim>\<open>*\<close> and \<^verbatim>\<open>+\<close> over a character class, greedy \<^verbatim>\<open>?\<close>, alternation, capture
  groups and \<^verbatim>\<open>^\<close>. A matcher state is the position in the input, the rest of the
  input and the captures so far. The matcher is a backtracking one, as the language's:
  \<open>mt ic r st k\<close> matches \<open>r\<close> from the state \<open>st\<close> and hands each state it can end in to
  the continuation \<open>k\<close>, in the order of priority, until \<open>k\<close> succeeds.
\<close>

datatype cset = Dot | White | NonWhite | WordCh | NonWhiteComma

datatype regex =
    Lit string
  | Star cset
  | Plus cset
  | Opt regex
  | Alt regex regex
  | Grp nat regex
  | Seq regex regex
  | Bol

record jsregex =
  pattern :: regex
  ignoreCase :: bool

fun inCset :: "cset \<Rightarrow> char \<Rightarrow> bool" where
  "inCset Dot c = (\<not> isLineTerminator c)"
| "inCset White c = isSpace c"
| "inCset NonWhite c = (\<not> isSpace c)"
| "inCset WordCh c = isWordChar c"
| "inCset NonWhiteComma c = (\<not> isSpace c \<and> c \<noteq> CHR '','')"

text \<open>Canonicalisation under the \<^verbatim>\<open>i\<close> flag; the literals of the sources are ASCII.\<close>

definition canonicalize :: "bool \<Rightarrow> char \<Rightarrow> char" where
  "canonicalize ic c =
     (if ic then
        (case map_of (zip ''abcdefghijklmnopqrstuvwxyz'' ''ABCDEFGHIJKLMNOPQRSTUVWXYZ'') c of
           None \<Rightarrow> c | Some u \<Rightarrow> u)
      else c)"

type_synonym captures = "nat \<Rightarrow> string option"

type_synonym mstate = "nat \<times> string \<times> captures"

fun firstSome :: "('a \<Rightarrow> 'b option) \<Rightarrow> 'a list \<Rightarrow> 'b option" where
  "firstSome f [] = None"
| "firstSome f (x # xs) = (case f x of None \<Rightarrow> firstSome f xs | Some y \<Rightarrow> Some y)"

text \<open>A literal at the head of the input: the rest of the input after it, if it is there.\<close>

fun litMatch :: "bool \<Rightarrow> string \<Rightarrow> string \<Rightarrow> string option" where
  "litMatch ic [] s = Some s"
| "litMatch ic (x # l) [] = None"
| "litMatch ic (x # l) (y # s) =
     (if canonicalize ic x = canonicalize ic y then litMatch ic l s else None)"

fun mt :: "bool \<Rightarrow> regex \<Rightarrow> mstate \<Rightarrow> (mstate \<Rightarrow> mstate option) \<Rightarrow> mstate option" where
  "mt ic (Lit l) (p, s, c) k =
     (case litMatch ic l s of None \<Rightarrow> None | Some s' \<Rightarrow> k (p + length l, s', c))"
| "mt ic (Star cs) (p, s, c) k =
     firstSome (\<lambda>j. k (p + j, drop j s, c)) (rev [0..<Suc (length (takeWhile (inCset cs) s))])"
| "mt ic (Plus cs) (p, s, c) k =
     firstSome (\<lambda>j. k (p + j, drop j s, c)) (rev [1..<Suc (length (takeWhile (inCset cs) s))])"
| "mt ic (Opt r) st k = (case mt ic r st k of None \<Rightarrow> k st | Some e \<Rightarrow> Some e)"
| "mt ic (Alt a b) st k = (case mt ic a st k of None \<Rightarrow> mt ic b st k | Some e \<Rightarrow> Some e)"
| "mt ic (Grp n r) (p, s, c) k =
     mt ic r (p, s, c) (\<lambda>(p', s', c'). k (p', s', c'(n \<mapsto> take (p' - p) s)))"
| "mt ic (Seq a b) st k = mt ic a st (\<lambda>st'. mt ic b st' k)"
| "mt ic Bol (p, s, c) k = (if p = 0 then k (p, s, c) else None)"

text \<open>The number of capture groups of a pattern.\<close>

fun groups :: "regex \<Rightarrow> nat" where
  "groups (Opt r) = groups r"
| "groups (Alt a b) = groups a + groups b"
| "groups (Grp n r) = Suc (groups r)"
| "groups (Seq a b) = groups a + groups b"
| "groups _ = 0"

text \<open>
  \<^verbatim>\<open>s.match(re)\<close> without the \<^verbatim>\<open>g\<close> flag: the leftmost match, as the array of the matched
  text and the captures (\<open>None\<close> for a group that took no part), or \<open>null\<close>.
\<close>

definition matchArray :: "jsregex \<Rightarrow> nat \<Rightarrow> string \<Rightarrow> mstate \<Rightarrow> string option list" where
  "matchArray re p s end =
     Some (take (fst end - p) s) # map (snd (snd end)) [1..<Suc (groups (pattern re))]"

fun search :: "jsregex \<Rightarrow> nat \<Rightarrow> string \<Rightarrow> string option list option" where
  "search re p s =
     (case mt (ignoreCase re) (pattern re) (p, s, \<lambda>_. None) Some of
        Some end \<Rightarrow> Some (matchArray re p s end)
      | None \<Rightarrow> (case s of [] \<Rightarrow> None | _ # t \<Rightarrow> search re (Suc p) t))"

declare search.simps [simp del]

definition regexMatch :: "jsregex \<Rightarrow> string \<Rightarrow> string option list option" where
  "regexMatch re s = search re 0 s"

text \<open>\<^verbatim>\<open>re.test(s)\<close>\<close>

definition regexTest :: "jsregex \<Rightarrow> string \<Rightarrow> bool" where
  "regexTest re s = (regexMatch re s \<noteq> None)"

text \<open>The patterns of the sources.\<close>

text \<open>\<^verbatim>\<open>/(--)?(debug|inspect)(=\S*)?/\<close>\<close>

definition nodeDebugOptsRegExp :: jsregex where
  "nodeDebugOptsRegExp = \<lparr>pattern =
     Seq (Opt (Grp 1 (Lit ''--'')))
    (Seq (Grp 2 (Alt (Lit ''debug'') (Lit ''inspect'')))
         (Opt (Grp 3 (Seq (Lit ''='') (Star NonWhite))))),
     ignoreCase = False\<rparr>"

text \<open>\<^verbatim>\<open>/node(js)?\s+.*(--)?(debug|inspect)(=\S*)?/i\<close>\<close>

definition fullNodeDebugOptsRegExp :: jsregex where
  "fullNodeDebugOptsRegExp = \<lparr>pattern =
     Seq (Lit ''node'')
    (Seq (Opt (Grp 1 (Lit ''js'')))
    (Seq (Plus White)
    (Seq (Star Dot)
    (Seq (Opt (Grp 2 (Lit ''--'')))
    (Seq (Grp 3 (Alt (Lit ''debug'') (Lit ''inspect'')))
         (Opt (Grp 4 (Seq (Lit ''='') (Star NonWhite))))))))),
     ignoreCase = True\<rparr>"

text \<open>\<^verbatim>\<open>/(-agentlib|-Xrunjdwp):\S*(address=[^\s,]+)/i\<close>\<close>

definition javaDebugOptsRegExp :: jsregex where
  "javaDebugOptsRegExp = \<lparr>pattern =
     Seq (Grp 1 (Alt (Lit ''-agentlib'') (Lit ''-Xrunjdwp'')))
    (Seq (Lit '':'')
    (Seq (Star NonWhite)
         (Grp 2 (Seq (Lit ''address='') (Plus NonWhiteComma))))),
     ignoreCase = True\<rparr>"

text \<open>\<^verbatim>\<open>/^java\s+.*(-agentlib|-Xrunjdwp):\S*(address=[^\s,]+)\S*/i\<close>\<close>

definition fullJavaDebugOptsRegExp :: jsregex where
  "fullJavaDebugOptsRegExp = \<lparr>pattern =
     Seq Bol
    (Seq (Lit ''java'')
    (Seq (Plus White)
    (Seq (Star Dot)
    (Seq (Grp 1 (Alt (Lit ''-agentlib'') (Lit ''-Xrunjdwp'')))
    (Seq (Lit '':'')
    (Seq (Star NonWhite)
    (Seq (Grp 2 (Seq (Lit ''address='') (Plus NonWhiteComma)))
         (Star NonWhite)))))))),
     ignoreCase = True\<rparr>"

text \<open>\<^verbatim>\<open>/\$\{?(\w+)\}?/\<close>\<close>

definition placeholderRegExp :: jsregex where
  "placeholderRegExp = \<lparr>pattern =
     Seq (Lit ''$'') (Seq (Opt (Lit ''{'')) (Seq (Grp 1 (Plus WordCh)) (Opt (Lit ''}'')))),
     ignoreCase = False\<rparr>"

text \<open>\<^verbatim>\<open>/\$\{?JAVA_OPTS\}?/\<close>\<close>

definition javaOptsRegExp :: jsregex where
  "javaOptsRegExp = \<lparr>pattern =
     Seq (Lit ''$'') (Seq (Opt (Lit ''{'')) (Seq (Lit ''JAVA_OPTS'') (Opt (Lit ''}'')))),
     ignoreCase = False\<rparr>"

text \<open>\<^verbatim>\<open>/Forwarding\s+from\s+127\.0\.0\.1:/\<close>\<close>

definition forwardingRegExp :: jsregex where
  "forwardingRegExp = \<lparr>pattern =
     Seq (Lit ''Forwarding'') (Seq (Plus White) (Seq (Lit ''from'') (Seq (Plus White)
       (Lit ''127.0.0.1:'')))),
     ignoreCase = False\<rparr>"

text \<open>\<^verbatim>\<open>xs.slice(a, b)\<close>: a negative index counts from the end.\<close>

definition slice :: "'a list \<Rightarrow> int \<Rightarrow> int \<Rightarrow> 'a list" where
  "slice xs a b =
     (let n = int (length xs);
          lo = (if a < 0 then max (n + a) 0 else min a n);
          hi = (if b < 0 then max (n + b) 0 else min b n)
      in take (nat (hi - lo)) (drop (nat lo) xs))"

text \<open>\<^verbatim>\<open>xs[xs.length - 1]\<close>\<close>

definition lastOpt :: "'a list \<Rightarrow> 'a option" where
  "lastOpt xs = (case xs of [] \<Rightarrow> None | _ # _ \<Rightarrow> Some (last xs))"

text \<open>\<^verbatim>\<open>m[i]\<close> on a match array: \<open>undefined\<close> out of range or for a group that took no part.\<close>

definition grp :: "string option list \<Rightarrow> nat \<Rightarrow> string option" where
  "grp m i = (if i < length m then m ! i else None)"

section \<open>The data model and the environment\<close>

record portInfo =
  debug :: "string option"
  app :: "string option"

record shellResult =
  code :: int
  stdout :: string
  stderr :: string

text \<open>What can be thrown: an \<open>Error\<close> with its message, a \<open>TypeError\<close> of the language, and the
  rejection of a promise without a reason.\<close>

datatype error = Error string | TypeError | NoReason

text \<open>
  \<open>IDockerParser\<close>: the Dockerfile parser is not part of the sources at hand, so a parser is
  the three answers its interface gives.
\<close>

record dockerParser =
  getBaseImage :: string
  getExposedPorts :: "string list"
  searchLaunchArgs :: "jsregex \<Rightarrow> string option list option"

text \<open>An object used as a map (\<^verbatim>\<open>env[key] = value\<close>), in the order of insertion.\<close>

type_synonym envMap = "(string \<times> string) list"

fun setKey :: "string \<Rightarrow> string \<Rightarrow> envMap \<Rightarrow> envMap" where
  "setKey k v [] = [(k, v)]"
| "setKey k v ((k', v') # r) = (if k = k' then (k, v) # r else (k', v') # setKey k v r)"

datatype provider = JavaProvider | NodeProvider

text \<open>The value that \<^verbatim>\<open>JSON.parse\<close> makes of the answer to \<^verbatim>\<open>get pods -o json\<close>: the names of
  its items, or a value without a list of named items.\<close>

datatype podList = NoItems | Items "string list"

text \<open>What \<^verbatim>\<open>portfinder.getPortPromise\<close> is given: nothing, or the option object
  \<^verbatim>\<open>{port: v}\<close>.\<close>

datatype portOption = NoPort | Port jsval

text \<open>What the port-forward process and the host's debugger report while a session lasts.\<close>

datatype event =
    StdoutData string
  | StderrData string
  | ProcessClose
  | SessionStarted string
  | SessionTerminated string

text \<open>
  The collaborators outside the sources, as the answers they give. The cluster client
  (\<^verbatim>\<open>kubectl.invokeAsync\<close>) and the port finder answer from the calls made so far and the
  present call; they do not throw on a non-zero exit code. The constructor of the
  Dockerfile parser (\<^verbatim>\<open>new DockerfileParser(path)\<close>) reads the file and throws when it cannot.
\<close>

record env =
  kubectlInvoke :: "string list \<Rightarrow> string \<Rightarrow> shellResult"
  shellExecCore :: "envMap \<Rightarrow> string \<Rightarrow> shellResult"
  showQuickPick :: "string list \<Rightarrow> string option"
  showInputBox :: "string \<Rightarrow> string option"
  pickProvider :: "provider option"
  nodeDebuggerType :: string
  isDebuggerInstalled :: "provider \<Rightarrow> bool"
  existsSync :: "string \<Rightarrow> bool"
  pathJoin :: "string \<Rightarrow> string \<Rightarrow> string"
  newDockerfileParser :: "string \<Rightarrow> error + dockerParser"
  imageUser :: "string option"
  kubectlPath :: "string option"
  basename :: "string \<Rightarrow> string"
  sanitiseTag :: "string \<Rightarrow> string"
  resolveDockerEnv :: "error + envMap"
  jsonParsePods :: "string \<Rightarrow> string + podList"
  getPortPromise :: "portOption list \<Rightarrow> portOption \<Rightarrow> error + jsval"
  startDebugging :: "string \<Rightarrow> string \<Rightarrow> jsval \<Rightarrow> bool"
  processEvents :: "event list"

text \<open>What the program has done to the outside so far.\<close>

record world =
  invoked :: "string list"
  channel :: "(string \<times> string option) list"
  errorMessages :: "string list"
  picks :: "string list list"
  inputs :: "string list"
  shellCmds :: "string list"
  portQueries :: "portOption list"
  spawned :: "(string \<times> string list) list"
  kills :: nat
  attaches :: "(string \<times> string \<times> jsval) list"
  listeners :: nat
  executed :: "string list"
  slept :: "nat list"
  now :: nat

definition world0 :: world where
  "world0 = \<lparr>invoked = [], channel = [], errorMessages = [], picks = [], inputs = [],
     shellCmds = [], portQueries = [], spawned = [], kills = 0, attaches = [], listeners = 0,
     executed = [], slept = [], now = 0\<rparr>"

definition invokeAsync :: "env \<Rightarrow> string \<Rightarrow> world \<Rightarrow> shellResult \<times> world" where
  "invokeAsync e cmd w = (kubectlInvoke e (invoked w) cmd, w\<lparr>invoked := invoked w @ [cmd]\<rparr>)"

definition execCore :: "env \<Rightarrow> envMap \<Rightarrow> string \<Rightarrow> world \<Rightarrow> shellResult \<times> world" where
  "execCore e opts cmd w = (shellExecCore e opts cmd, w\<lparr>shellCmds := shellCmds w @ [cmd]\<rparr>)"

definition showOutput :: "string \<Rightarrow> string option \<Rightarrow> world \<Rightarrow> world" where
  "showOutput msg title w = w\<lparr>channel := channel w @ [(msg, title)]\<rparr>"

definition showErrorMessage :: "string \<Rightarrow> world \<Rightarrow> world" where
  "showErrorMessage msg w = w\<lparr>errorMessages := errorMessages w @ [msg]\<rparr>"

definition quickPick :: "env \<Rightarrow> string list \<Rightarrow> world \<Rightarrow> string option \<times> world" where
  "quickPick e items w = (showQuickPick e items, w\<lparr>picks := picks w @ [items]\<rparr>)"

definition inputBox :: "env \<Rightarrow> string \<Rightarrow> world \<Rightarrow> string option \<times> world" where
  "inputBox e prompt w = (showInputBox e prompt, w\<lparr>inputs := inputs w @ [prompt]\<rparr>)"

definition executeCommand :: "string \<Rightarrow> world \<Rightarrow> world" where
  "executeCommand c w = w\<lparr>executed := executed w @ [c]\<rparr>"

definition sleep :: "nat \<Rightarrow> world \<Rightarrow> world" where
  "sleep ms w = w\<lparr>slept := slept w @ [ms], now := now w + ms\<rparr>"

section \<open>Port resolution from the Dockerfile\<close>

text \<open>
  The choice of the application port, as both resolvers make it; \<open>excludes\<close> and the
  default application port are the resolver's (\<open>"9000"\<close> in both).
\<close>

definition resolveAppPort ::
  "env \<Rightarrow> string list \<Rightarrow> string \<Rightarrow> string list \<Rightarrow> envMap \<Rightarrow> world \<Rightarrow> string option \<times> envMap \<times> world"
where
  "resolveAppPort e excludes defaultAppPort dockerExpose cenv w =
     (let possiblePorts = filter (\<lambda>port. port \<notin> set excludes) dockerExpose in
      if length possiblePorts = 1 then (Some (possiblePorts ! 0), cenv, w)
      else if length possiblePorts > 1 then
        (let (appPort, w1) = quickPick e possiblePorts w in
         case regexMatch placeholderRegExp (tpl appPort) of
           None \<Rightarrow> (None, cenv, w1)
         | Some m \<Rightarrow>
             (let varName = tpl (grp m 1)
              in (Some defaultAppPort, setKey varName defaultAppPort cenv, w1)))
      else (None, cenv, w))"

text \<open>\<open>NodeDockerResolver.resolvePortsFromFile\<close>\<close>

definition nodeResolvePortsFromFile ::
  "env \<Rightarrow> dockerParser \<Rightarrow> envMap \<Rightarrow> world \<Rightarrow> portInfo \<times> envMap \<times> world"
where
  "nodeResolvePortsFromFile e parser cenv w =
     (let dbg =
        (case searchLaunchArgs parser nodeDebugOptsRegExp of
           None \<Rightarrow> None
         | Some nodeCmd \<Rightarrow>
             if \<not> truthy (grp nodeCmd 3)
             then Some (if grp nodeCmd 2 = Some ''inspect'' then ''9229'' else ''5858'')
             else lastOpt (splitChar CHR '':'' (substringFrom (tpl (grp nodeCmd 3)) 1)));
          dockerExpose = getExposedPorts parser
      in if truthy dbg \<and> dockerExpose \<noteq> [] then
           (let (a, cenv', w') =
              resolveAppPort e [''9229'', ''5858'', tpl dbg] ''9000'' dockerExpose cenv w
            in (\<lparr>debug = dbg, app = a\<rparr>, cenv', w'))
         else (\<lparr>debug = dbg, app = None\<rparr>, cenv, w))"

text \<open>\<^verbatim>\<open>matches[2].split("=")[1].split(":")\<close> and its last element; reading a property of
  \<open>undefined\<close> throws a \<open>TypeError\<close>.\<close>

definition javaAddressPort :: "string option list \<Rightarrow> error + string option" where
  "javaAddressPort matches =
     (case grp matches 2 of
        None \<Rightarrow> Inl TypeError
      | Some g \<Rightarrow>
          (case nth_opt (splitChar CHR ''='' g) 1 of
             None \<Rightarrow> Inl TypeError
           | Some a \<Rightarrow> Inr (lastOpt (splitChar CHR '':'' a))))"

definition defaultJavaDebugPort :: string where
  "defaultJavaDebugPort = ''5005''"

definition defaultJavaDebugOpts :: string where
  "defaultJavaDebugOpts =
     ''-agentlib:jdwp=transport=dt_socket,server=y,suspend=n,address='' @ defaultJavaDebugPort
       @ '',quiet=y''"

definition defaultJavaAppPort :: string where
  "defaultJavaAppPort = ''9000''"

text \<open>\<open>JavaDockerResolver.resolvePortsFromFile\<close>\<close>

definition javaResolvePortsFromFile ::
  "env \<Rightarrow> dockerParser \<Rightarrow> envMap \<Rightarrow> world \<Rightarrow> (error + portInfo) \<times> envMap \<times> world"
where
  "javaResolvePortsFromFile e parser cenv w =
     (case (case searchLaunchArgs parser javaDebugOptsRegExp of
              Some matches \<Rightarrow>
                (case javaAddressPort matches of Inl err \<Rightarrow> Inl err | Inr d \<Rightarrow> Inr (d, cenv))
            | None \<Rightarrow>
                (case searchLaunchArgs parser javaOptsRegExp of
                   Some _ \<Rightarrow>
                     Inr (Some defaultJavaDebugPort, setKey ''JAVA_OPTS'' defaultJavaDebugOpts cenv)
                 | None \<Rightarrow> Inr (None, cenv)))
      of
        Inl err \<Rightarrow> (Inl err, cenv, w)
      | Inr (dbg, cenv1) \<Rightarrow>
          (let dockerExpose = getExposedPorts parser in
           if truthy dbg \<and> dockerExpose \<noteq> [] then
             (let (a, cenv', w') =
                resolveAppPort e [tpl dbg] defaultJavaAppPort dockerExpose cenv1 w
              in (Inr \<lparr>debug = dbg, app = a\<rparr>, cenv', w'))
           else (Inr \<lparr>debug = dbg, app = None\<rparr>, cenv1, w)))"

definition resolvePortsFromFile ::
  "provider \<Rightarrow> env \<Rightarrow> dockerParser \<Rightarrow> envMap \<Rightarrow> world \<Rightarrow> (error + portInfo) \<times> envMap \<times> world"
where
  "resolvePortsFromFile pr e parser cenv w =
     (case pr of
        JavaProvider \<Rightarrow> javaResolvePortsFromFile e parser cenv w
      | NodeProvider \<Rightarrow>
          (let (pi, cenv', w') = nodeResolvePortsFromFile e parser cenv w in (Inr pi, cenv', w')))"

section \<open>Port resolution from a running pod\<close>

text \<open>
  \<^verbatim>\<open>const execCmd = `exec ${pod} ${container ? "-c ${selectedContainer}" : ""} -- ps -ef`;\<close>
  The same line occurs in the Java and in the Node resolver. The inner string is written
  with double quotes, so its \<^verbatim>\<open>${selectedContainer}\<close> is not interpolated.
\<close>

definition execCmd :: "string \<Rightarrow> string option \<Rightarrow> string" where
  "execCmd pod container =
     ''exec '' @ pod @ '' '' @ (if truthy container then ''-c ${selectedContainer}'' else [])
       @ '' -- ps -ef''"

text \<open>The columns of a line of the listing, and the command text in its tail columns.\<close>

definition columns :: "string \<Rightarrow> string list" where
  "columns line = splitWs (trim line)"

definition commandOf :: "nat \<Rightarrow> string list \<Rightarrow> string" where
  "commandOf totalCol cols =
     joinWith '' '' (slice cols (int totalCol - 1) (int (length cols)))"

text \<open>
  The loop over the lines after the header, in the Node resolver: the value of
  \<open>portInfo.debug\<close> when the loop ends.
\<close>

fun nodeScan :: "nat \<Rightarrow> string list \<Rightarrow> string option" where
  "nodeScan totalCol [] = None"
| "nodeScan totalCol (line # rest) =
     (let cols = columns line in
      if length cols < totalCol then nodeScan totalCol rest
      else
        (case regexMatch fullNodeDebugOptsRegExp (commandOf totalCol cols) of
           None \<Rightarrow> nodeScan totalCol rest
         | Some matches \<Rightarrow>
             if length matches = 5 then
               (if \<not> truthy (grp matches 4)
                then Some (if grp matches 3 = Some ''inspect'' then ''9229'' else ''5858'')
                else lastOpt (splitChar CHR '':'' (substringFrom (tpl (grp matches 4)) 1)))
             else nodeScan totalCol rest))"

text \<open>The same loop in the Java resolver; \<open>javaAddressPort\<close> can throw.\<close>

fun javaScan :: "nat \<Rightarrow> string list \<Rightarrow> error + string option" where
  "javaScan totalCol [] = Inr None"
| "javaScan totalCol (line # rest) =
     (let cols = columns line in
      if length cols < totalCol then javaScan totalCol rest
      else
        (case regexMatch fullJavaDebugOptsRegExp (commandOf totalCol cols) of
           None \<Rightarrow> javaScan totalCol rest
         | Some matches \<Rightarrow>
             if length matches = 3 then javaAddressPort matches
             else javaScan totalCol rest))"

text \<open>
  Both resolvers split the listing into lines and count the columns of the header
  \<open>ps[0]\<close>; the loop starts at the second line.
\<close>

definition scanListing ::
  "(nat \<Rightarrow> string list \<Rightarrow> error + string option) \<Rightarrow> string \<Rightarrow> error + string option"
where
  "scanListing scan out =
     (case splitChar CHR 0x0A out of
        [] \<Rightarrow> Inl TypeError
      | header # rest \<Rightarrow> scan (length (columns header)) rest)"

text \<open>The rest of \<open>resolvePortsFromPod\<close>, which the two resolvers share but for the loop
  and the prompt's text.\<close>

definition resolveFromPod ::
  "(nat \<Rightarrow> string list \<Rightarrow> error + string option) \<Rightarrow> string \<Rightarrow> env \<Rightarrow> string \<Rightarrow>
   string option \<Rightarrow> world \<Rightarrow> (error + portInfo) \<times> world"
where
  "resolveFromPod scan prompt e pod container w =
     (let (execResult, w1) = invokeAsync e (execCmd pod container) w in
      case (if code execResult = 0 then scanListing scan (stdout execResult) else Inr None) of
        Inl err \<Rightarrow> (Inl err, w1)
      | Inr dbg \<Rightarrow>
          if \<not> truthy dbg then
            (let (input, w2) = inputBox e prompt w1 in
             (Inr \<lparr>debug = (if truthy input then Some (trim (tpl input)) else None), app = None\<rparr>,
              w2))
          else (Inr \<lparr>debug = dbg, app = None\<rparr>, w1))"

text \<open>\<open>NodeDockerResolver.resolvePortsFromPod\<close>\<close>

definition nodeResolvePortsFromPod ::
  "env \<Rightarrow> string \<Rightarrow> string option \<Rightarrow> world \<Rightarrow> (error + portInfo) \<times> world"
where
  "nodeResolvePortsFromPod =
     resolveFromPod (\<lambda>n ls. Inr (nodeScan n ls))
       ''Please specify debug port exposed by the container (e.g. 9229)''"

text \<open>\<open>JavaDockerResolver.resolvePortsFromPod\<close>\<close>

definition javaResolvePortsFromPod ::
  "env \<Rightarrow> string \<Rightarrow> string option \<Rightarrow> world \<Rightarrow> (error + portInfo) \<times> world"
where
  "javaResolvePortsFromPod =
     resolveFromPod javaScan ''Please specify debug port exposed by the container (e.g. 5005)''"

section \<open>The debug service\<close>

text \<open>A double quote, for the messages and commands that contain one.\<close>

definition dq :: string where
  "dq = [CHR 0x22]"

text \<open>\<^verbatim>\<open>`${error}`\<close>\<close>

fun errorText :: "error \<Rightarrow> string" where
  "errorText (Error m) = ''Error: '' @ m"
| "errorText TypeError = ''TypeError''"
| "errorText NoReason = ''undefined''"

text \<open>\<open>DebugService.deleteResource\<close>. It has no \<^verbatim>\<open>throw\<close>; the result says so.\<close>

definition deleteResource :: "env \<Rightarrow> string \<Rightarrow> world \<Rightarrow> (error + unit) \<times> world" where
  "deleteResource e resourceId w =
     (let (deleteResult, w1) = invokeAsync e (''delete '' @ resourceId) w in
      if code deleteResult \<noteq> 0 then
        (Inr (),
         showOutput (''Kubectl command failed: '' @ stderr deleteResult)
           (Some ''Delete debug resource'') w1)
      else
        (Inr (),
         executeCommand ''extension.vsKubernetesRefreshExplorer''
           (showOutput (''Resource '' @ resourceId @ '' is removed successfully.'')
              (Some ''Delete debug resource'') w1)))"

text \<open>\<open>DebugService.findVersion\<close>\<close>

definition findVersion :: "env \<Rightarrow> string \<Rightarrow> world \<Rightarrow> string \<times> world" where
  "findVersion e cwd w =
     (let (shellResult, w1) = execCore e [] ''git describe --always --dirty'' w in
      (if code shellResult \<noteq> 0 then ''latest'' else trim (stdout shellResult), w1))"

text \<open>The name under which \<open>buildDockerImage\<close> builds the image.\<close>

definition imageRef :: "string option \<Rightarrow> string \<Rightarrow> string \<Rightarrow> string" where
  "imageRef dockerImageUser name version =
     (if truthy dockerImageUser then tpl dockerImageUser @ ''/'' @ (name @ '':'' @ version)
      else name @ '':'' @ version)"

text \<open>
  \<open>DebugService.buildDockerImage\<close>. \<open>resolveDockerEnv\<close>, which reads the cluster's
  configuration, is taken as its outcome: the variables it adds to the build's
  environment, or what it throws.
\<close>

definition buildDockerImage ::
  "env \<Rightarrow> string \<Rightarrow> string option \<Rightarrow> world \<Rightarrow> (error + string) \<times> world"
where
  "buildDockerImage e cwd dockerImageUser w =
     (let name = sanitiseTag e (basename e cwd);
          (version, w1) = findVersion e cwd w;
          img = imageRef dockerImageUser name version
      in case (if \<not> truthy dockerImageUser then resolveDockerEnv e else Inr []) of
           Inl err \<Rightarrow> (Inl err, w1)
         | Inr dockerEnv \<Rightarrow>
             (let (buildResult, w2) = execCore e dockerEnv (''docker build -t '' @ img @ '' .'') w1
              in if code buildResult = 0 then
                   (let w3 = showOutput (img @ '' built.'') (Some ''Docker build'') w2 in
                    if truthy dockerImageUser then
                      (let (pushResult, w4) = execCore e dockerEnv (''docker push '' @ img) w3
                       in if code pushResult \<noteq> 0 then
                            (Inl (Error (''Image push failed: '' @ stderr pushResult)),
                             showOutput (stderr pushResult) (Some ''Docker push'')
                               (showErrorMessage
                                  ''Image push failed. See Output window for details.'' w4))
                          else (Inr img, showOutput (img @ '' pushed.'') (Some ''Docker push'') w4))
                    else (Inr img, w3))
                 else
                   (Inl (Error (''Image build failed: '' @ stderr buildResult)),
                    showOutput (stderr buildResult) (Some ''Docker build'')
                      (showErrorMessage ''Image build failed. See Output window for details.'' w2))))"

text \<open>\<^verbatim>\<open>image.split(":")[0]\<close>; \<open>split\<close> never gives an empty array.\<close>

definition imageNameOf :: "string \<Rightarrow> string" where
  "imageNameOf img = (case splitChar CHR '':'' img of [] \<Rightarrow> [] | n # _ \<Rightarrow> n)"

text \<open>\<^verbatim>\<open>imageName.substring(0, imageName.lastIndexOf("/")+1)\<close>\<close>

definition imageUserOf :: "string \<Rightarrow> string" where
  "imageUserOf img =
     (let imageName = imageNameOf img
      in substring imageName 0 (lastIndexOf CHR ''/'' imageName + 1))"

text \<open>\<^verbatim>\<open>imageName.substring(imageName.lastIndexOf("/")+1)\<close>\<close>

definition baseNameOf :: "string \<Rightarrow> string" where
  "baseNameOf img =
     (let imageName = imageNameOf img
      in substringFrom imageName (lastIndexOf CHR ''/'' imageName + 1))"

text \<open>The array \<open>runCmd\<close> of \<open>runDockerImageInK8s\<close>.\<close>

definition runCmd :: "string \<Rightarrow> string \<Rightarrow> string option list \<Rightarrow> envMap \<Rightarrow> string list" where
  "runCmd deploymentName img exposedPorts cenv =
     [''run'', deploymentName, ''--image='' @ img,
      (if imageUserOf img = [] then '' --image-pull-policy=Never'' else [])]
     @ map (\<lambda>port. if truthy port then ''--port='' @ tpl port else []) exposedPorts
     @ map (\<lambda>(key, v). ''--env='' @ dq @ key @ ''='' @ v @ dq) cenv"

text \<open>\<open>DebugService.runDockerImageInK8s\<close>\<close>

definition runDockerImageInK8s ::
  "env \<Rightarrow> string \<Rightarrow> string option list \<Rightarrow> envMap \<Rightarrow> world \<Rightarrow> (error + string) \<times> world"
where
  "runDockerImageInK8s e img exposedPorts cenv w =
     (let deploymentName = baseNameOf img @ ''-debug-'' @ showNat (now w);
          (runResult, w1) =
            invokeAsync e (joinWith '' '' (runCmd deploymentName img exposedPorts cenv)) w
      in if code runResult \<noteq> 0 then
           (Inl (Error (''Failed to start debug container: '' @ stderr runResult)),
            showErrorMessage (''Failed to start debug container: '' @ stderr runResult) w1)
         else (Inr deploymentName, w1))"

text \<open>\<open>DebugService.findPods\<close>\<close>

definition findPods :: "env \<Rightarrow> string \<Rightarrow> world \<Rightarrow> (error + podList) \<times> world" where
  "findPods e labelQuery w =
     (let (getResult, w1) = invokeAsync e (''get pods -o json -l '' @ labelQuery) w in
      if code getResult \<noteq> 0 then
        (Inl (Error (''Kubectl command failed: '' @ stderr getResult)),
         showErrorMessage (''Kubectl command failed: '' @ stderr getResult) w1)
      else
        (case jsonParsePods e (stdout getResult) of
           Inl ex \<Rightarrow>
             (Inl (Error (''unexpected error: '' @ ex)),
              showErrorMessage (''unexpected error: '' @ ex) w1)
         | Inr podList \<Rightarrow> (Inr podList, w1)))"

text \<open>The status that \<open>waitForRunningPod\<close> reads: \<^verbatim>\<open>shellResult.stdout.split(/\s+/)[2]\<close>.\<close>

definition podStatus :: "shellResult \<Rightarrow> string option" where
  "podStatus shellResult = nth_opt (splitWs (stdout shellResult)) 2"

text \<open>The message with the pod's logs. The template literal has a line break and sixteen
  blanks after its first \<^verbatim>\<open>\n\<close>.\<close>

definition podFailureOutput :: "string \<Rightarrow> string option \<Rightarrow> shellResult \<Rightarrow> string" where
  "podFailureOutput podName status logsResult =
     ''Failed to start the pod '' @ dq @ podName @ dq @ '', it's status is '' @ dq @ tpl status
       @ dq @ ''.'' @ [CHR 0x0A, CHR 0x0A] @ replicate 16 CHR '' ''
       @ ''See more details from the pod logs:'' @ [CHR 0x0A]
       @ (if code logsResult = 0 then stdout logsResult else stderr logsResult)"

text \<open>
  \<open>DebugService.waitForRunningPod\<close>. Nothing bounds the number of polls, so the result
  is \<open>None\<close> when the wait never ends.
\<close>

partial_function (option) waitForRunningPod ::
  "env \<Rightarrow> string \<Rightarrow> world \<Rightarrow> ((error + unit) \<times> world) option"
where
  "waitForRunningPod e podName w =
     (let (shellResult, w1) = invokeAsync e (''get pod/'' @ podName @ '' --no-headers'') w in
      if code shellResult \<noteq> 0 then
        Some (Inl (Error (''Failed to get pod status: '' @ stderr shellResult)),
              showErrorMessage (''Failed to get pod status: '' @ stderr shellResult)
                (showOutput (''Failed to get pod status: '' @ stderr shellResult)
                   (Some ''Query pod status'') w1))
      else
        (let status = podStatus shellResult;
             w2 = showOutput (''pod/'' @ podName @ '' status: '' @ tpl status)
                    (Some ''Query pod status'') w1
         in if status = Some ''Running'' then Some (Inr (), w2)
            else if status \<noteq> Some ''ContainerCreating'' \<and> status \<noteq> Some ''Pending''
                    \<and> status \<noteq> Some ''Succeeded'' then
              (let w3 = showErrorMessage
                          (''The pod '' @ dq @ podName @ dq @ '' stays at a wrong status '' @ dq
                             @ tpl status @ dq @ ''. See Output window for more details.'') w2;
                   (logsResult, w4) = invokeAsync e (''logs pod/'' @ podName) w3;
                   w5 = showOutput (podFailureOutput podName status logsResult)
                          (Some ''Query pod status'') w4
               in Some (Inl (Error (''Failed to start the pod '' @ dq @ podName @ dq
                                      @ '', it's status is '' @ dq @ tpl status @ dq @ ''.'')),
                        w5))
            else waitForRunningPod e podName (sleep 1000 w2)))"

declare waitForRunningPod.simps [code]

text \<open>One call of \<^verbatim>\<open>portfinder.getPortPromise\<close>.\<close>

definition getPort :: "env \<Rightarrow> portOption \<Rightarrow> world \<Rightarrow> (error + jsval) \<times> world" where
  "getPort e opt w = (getPortPromise e (portQueries w) opt, w\<lparr>portQueries := portQueries w @ [opt]\<rparr>)"

record proxyResult =
  proxyDebugPort :: jsval
  proxyAppPort :: jsval

text \<open>
  \<open>DebugService.createPortForward\<close>. The finder is given the application port as the
  string it is; \<open>proxyAppPort\<close> starts as the number 0; the finder's two answers are
  compared with \<^verbatim>\<open>===\<close>, and the finder is asked again, from \<^verbatim>\<open>proxyAppPort + 1\<close>, only when
  they are equal.
\<close>

definition createPortForward ::
  "env \<Rightarrow> string \<Rightarrow> string \<Rightarrow> string option \<Rightarrow> world \<Rightarrow> (error + proxyResult) \<times> world"
where
  "createPortForward e podName debugPort appPort w =
     (case (if truthy appPort then
              (case getPort e (Port (Str (tpl appPort))) w of
                 (Inl err, w1) \<Rightarrow> (Inl err, w1)
               | (Inr p, w1) \<Rightarrow> (Inr (p, [jsText p @ '':'' @ tpl appPort]), w1))
            else (Inr (Num 0, []), w))
      of
        (Inl err, w1) \<Rightarrow> (Inl err, w1)
      | (Inr (proxyApp, portMapping), w1) \<Rightarrow>
          (case getPort e NoPort w1 of
             (Inl err, w2) \<Rightarrow> (Inl err, w2)
           | (Inr firstDebug, w2) \<Rightarrow>
               (case (if firstDebug = proxyApp then getPort e (Port (plusOne proxyApp)) w2
                      else (Inr firstDebug, w2))
                of
                  (Inl err, w3) \<Rightarrow> (Inl err, w3)
                | (Inr proxyDebug, w3) \<Rightarrow>
                    (let bin = (if truthy (kubectlPath e) then tpl (kubectlPath e) else ''kubectl'')
                     in (Inr \<lparr>proxyDebugPort = proxyDebug, proxyAppPort = proxyApp\<rparr>,
                         w3\<lparr>spawned := spawned w3 @
                            [(bin, [''port-forward'', podName] @ portMapping
                                     @ [jsText proxyDebug @ '':'' @ debugPort])]\<rparr>)))))"

subsection \<open>Starting the debug session\<close>

text \<open>
  The state that the handlers of \<open>startDebug\<close> share: the flag \<open>isStarted\<close>, the promise
  that \<open>startDebug\<close> returns, and the listeners on the debugger's sessions with the
  session name they wait for.
\<close>

datatype promise = Pending | Resolved | Rejected

record session =
  isStarted :: bool
  settled :: promise
  sessionName :: "string option"
  listening :: bool

definition session0 :: session where
  "session0 = \<lparr>isStarted = False, settled = Pending, sessionName = None, listening = False\<rparr>"

text \<open>\<open>resolve()\<close> and \<open>reject()\<close> settle a promise once.\<close>

definition settle :: "promise \<Rightarrow> session \<Rightarrow> session" where
  "settle v s = (if settled s = Pending then s\<lparr>settled := v\<rparr> else s)"

text \<open>
  \<^verbatim>\<open>const success = this.debugProvider.startDebugging(workspaceFolder, sessionName, proxyDebugPort);\<close>
  \<open>startDebugging\<close> returns a promise of a boolean and the call is not awaited, so
  \<open>success\<close> is the promise. \<^verbatim>\<open>!success\<close> is the negation of an object, which is false
  whatever the promise holds.
\<close>

datatype 'a thenable = Thenable 'a

fun notThenable :: "'a thenable \<Rightarrow> bool" where
  "notThenable (Thenable v) = False"

definition killProcess :: "world \<Rightarrow> world" where
  "killProcess w = w\<lparr>kills := kills w + 1\<rparr>"

text \<open>
  The handlers of \<open>startDebug\<close>, one event at a time: the data handlers of the process's
  output, its close handler, and the two listeners on the debugger's sessions.
\<close>

fun onEvent ::
  "env \<Rightarrow> string option \<Rightarrow> string \<Rightarrow> string \<Rightarrow> jsval \<Rightarrow> jsval \<Rightarrow> event \<Rightarrow> session \<times> world
   \<Rightarrow> session \<times> world"
where
  "onEvent e appName workspaceFolder debugType proxyDebug proxyApp (StdoutData message) (s, w) =
     (if \<not> isStarted s \<and> regexTest forwardingRegExp message then
        (let s1 = s\<lparr>isStarted := True\<rparr>;
             name = (if truthy appName then tpl appName else showNat (now w));
             s2 = s1\<lparr>sessionName := Some name, listening := True\<rparr>;
             w1 = w\<lparr>listeners := listeners w + 2\<rparr>;
             success = Thenable (startDebugging e workspaceFolder name proxyDebug);
             w2 = w1\<lparr>attaches := attaches w1 @ [(workspaceFolder, name, proxyDebug)]\<rparr>
         in if notThenable success then
              (settle Rejected (s2\<lparr>listening := False\<rparr>),
               (killProcess w2)\<lparr>listeners := listeners w2 - 2\<rparr>)
            else (settle Resolved s2, w2))
      else (s, w))"
| "onEvent e appName workspaceFolder debugType proxyDebug proxyApp (StderrData d) (s, w) =
     (s, showOutput d (Some ''port-forward'') w)"
| "onEvent e appName workspaceFolder debugType proxyDebug proxyApp ProcessClose (s, w) =
     (let s1 = settle Resolved (s\<lparr>isStarted := True\<rparr>) in
      if truthy appName then (s1, snd (deleteResource e (''deployment/'' @ tpl appName) w))
      else (s1, w))"
| "onEvent e appName workspaceFolder debugType proxyDebug proxyApp (SessionStarted n) (s, w) =
     (if listening s \<and> sessionName s = Some n then
        (let w1 = showOutput (''The '' @ debugType
                    @ '' debug session is started, you could start debugging your application now.'')
                    (Some (''Start '' @ debugType @ '' debug'')) w
         in if truthyVal proxyApp then
              (s, executeCommand (''vscode.open http://localhost:'' @ jsText proxyApp)
                    (showOutput (''The local proxy url for your service is http://localhost:''
                                   @ jsText proxyApp)
                       (Some ''Create proxy for service'') w1))
            else (s, w1))
      else (s, w))"
| "onEvent e appName workspaceFolder debugType proxyDebug proxyApp (SessionTerminated n) (s, w) =
     (if listening s \<and> sessionName s = Some n then
        (s\<lparr>listening := False\<rparr>, (killProcess w)\<lparr>listeners := listeners w - 2\<rparr>)
      else (s, w))"

text \<open>All the events of a list, in order.\<close>

fun runEvents ::
  "env \<Rightarrow> string option \<Rightarrow> string \<Rightarrow> string \<Rightarrow> jsval \<Rightarrow> jsval \<Rightarrow> event list \<Rightarrow> session \<times> world
   \<Rightarrow> session \<times> world"
where
  "runEvents e appName wsf dt pd pa [] sw = sw"
| "runEvents e appName wsf dt pd pa (ev # evs) sw =
     runEvents e appName wsf dt pd pa evs (onEvent e appName wsf dt pd pa ev sw)"

text \<open>The events up to the one that settles the promise, and the events left.\<close>

fun runUntilSettled ::
  "env \<Rightarrow> string option \<Rightarrow> string \<Rightarrow> string \<Rightarrow> jsval \<Rightarrow> jsval \<Rightarrow> event list \<Rightarrow> session \<times> world
   \<Rightarrow> (session \<times> world) \<times> event list"
where
  "runUntilSettled e appName wsf dt pd pa [] sw = (sw, [])"
| "runUntilSettled e appName wsf dt pd pa (ev # evs) sw =
     (let sw' = onEvent e appName wsf dt pd pa ev sw in
      if settled (fst sw') \<noteq> Pending then (sw', evs)
      else runUntilSettled e appName wsf dt pd pa evs sw')"

subsection \<open>The provider registry\<close>

text \<open>\<open>getDebuggerType\<close>; the Node provider is not in the sources at hand, so its debugger
  type is the environment's.\<close>

definition getDebuggerType :: "env \<Rightarrow> provider \<Rightarrow> string" where
  "getDebuggerType e pr =
     (case pr of JavaProvider \<Rightarrow> ''java'' | NodeProvider \<Rightarrow> nodeDebuggerType e)"

definition isSupportedImage :: "provider \<Rightarrow> string \<Rightarrow> bool" where
  "isSupportedImage pr baseImage =
     (case pr of
        JavaProvider \<Rightarrow>
          containsStr baseImage ''java'' \<or> containsStr baseImage ''openjdk''
            \<or> containsStr baseImage ''oracle''
      | NodeProvider \<Rightarrow> containsStr baseImage ''node'')"

definition supportedProviders :: "provider list" where
  "supportedProviders = [JavaProvider, NodeProvider]"

text \<open>\<open>getDebugProvider\<close>; the user's choice in \<open>showProviderPick\<close> is the environment's.\<close>

definition getDebugProvider :: "env \<Rightarrow> string option \<Rightarrow> world \<Rightarrow> provider option \<times> world" where
  "getDebugProvider e baseImage w =
     (case (if truthy baseImage
            then find (\<lambda>pr. isSupportedImage pr (tpl baseImage)) supportedProviders else None)
      of
        Some pr \<Rightarrow> (Some pr, w)
      | None \<Rightarrow> (pickProvider e, w\<lparr>picks := picks w @ [map (getDebuggerType e) supportedProviders]\<rparr>))"

subsection \<open>The launch flow\<close>

text \<open>The \<^verbatim>\<open>catch\<close> block of the flow, with its inner \<^verbatim>\<open>try\<close>.\<close>

definition catchBlock :: "env \<Rightarrow> string option \<Rightarrow> error \<Rightarrow> world \<Rightarrow> (error + unit) \<times> world" where
  "catchBlock e appName err w =
     (let w1 = showOutput (''Debug(Launch) on kubernetes failed. See the errors: ''
                 @ errorText err @ ''.'') None w
      in if truthy appName then
           (case deleteResource e (''deployment/'' @ tpl appName) w1 of
              (Inl err1, w2) \<Rightarrow> (Inr (), w2)
            | (Inr u, w2) \<Rightarrow> (Inr (), w2))
         else (Inr (), w1))"

text \<open>
  The \<^verbatim>\<open>try\<close> block up to the port forward: the value of \<open>appName\<close> when it ends, and either
  what was thrown or the pod and the forwarded ports. The progress reports are left out.
\<close>

definition deploy ::
  "env \<Rightarrow> string \<Rightarrow> string option \<Rightarrow> portInfo \<Rightarrow> envMap \<Rightarrow> world
   \<Rightarrow> (string option \<times> (error + proxyResult) \<times> world) option"
where
  "deploy e cwd dockerImageUser pinfo containerEnv w =
     (case buildDockerImage e cwd dockerImageUser w of
        (Inl err, w1) \<Rightarrow> Some (None, Inl err, w1)
      | (Inr img, w1) \<Rightarrow>
          (case runDockerImageInK8s e img [app pinfo, debug pinfo] containerEnv w1 of
             (Inl err, w2) \<Rightarrow> Some (None, Inl err, w2)
           | (Inr appName, w2) \<Rightarrow>
               (case findPods e (''run='' @ appName) w2 of
                  (Inl err, w3) \<Rightarrow> Some (Some appName, Inl err, w3)
                | (Inr NoItems, w3) \<Rightarrow> Some (Some appName, Inl TypeError, w3)
                | (Inr (Items []), w3) \<Rightarrow>
                    Some (Some appName, Inl (Error ''Failed to find debug pod.''),
                          showErrorMessage ''Failed to find debug pod.'' w3)
                | (Inr (Items (podName # _)), w3) \<Rightarrow>
                    (case waitForRunningPod e podName
                            (showOutput (''Debug pod running as: '' @ podName)
                               (Some ''Run debug pod'') w3)
                     of
                       None \<Rightarrow> None
                     | Some (Inl err, w5) \<Rightarrow> Some (Some appName, Inl err, w5)
                     | Some (Inr u, w5) \<Rightarrow>
                         (case createPortForward e podName (tpl (debug pinfo)) (app pinfo) w5 of
                            (Inl err, w6) \<Rightarrow> Some (Some appName, Inl err, w6)
                          | (Inr proxy, w6) \<Rightarrow> Some (Some appName, Inr proxy, w6))))))"

text \<open>
  The whole callback given to \<open>withProgress\<close>: \<open>deploy\<close>, then \<open>startDebug\<close> on the events of
  the session. The callback ends when the promise of \<open>startDebug\<close> settles (\<open>None\<close> when it
  never does); the handlers go on with the events that follow. The result is how the
  callback ends and the world after the last event.
\<close>

definition launchFlow ::
  "env \<Rightarrow> provider \<Rightarrow> string \<Rightarrow> string option \<Rightarrow> portInfo \<Rightarrow> envMap \<Rightarrow> world
   \<Rightarrow> ((error + unit) \<times> world) option"
where
  "launchFlow e pr cwd dockerImageUser pinfo containerEnv w =
     (case deploy e cwd dockerImageUser pinfo containerEnv w of
        None \<Rightarrow> None
      | Some (appName, Inl err, w1) \<Rightarrow> Some (catchBlock e appName err w1)
      | Some (appName, Inr proxy, w1) \<Rightarrow>
          (let dt = getDebuggerType e pr;
               pd = proxyDebugPort proxy;
               pa = proxyAppPort proxy;
               ((s, w2), rest) =
                 runUntilSettled e appName cwd dt pd pa (processEvents e) (session0, w1)
           in case settled s of
                Pending \<Rightarrow> None
              | Resolved \<Rightarrow> Some (Inr (), snd (runEvents e appName cwd dt pd pa rest (s, w2)))
              | Rejected \<Rightarrow>
                  (let (r, w3) = catchBlock e appName NoReason w2
                   in Some (r, snd (runEvents e appName cwd dt pd pa rest (s, w3))))))"

record workspaceFolder =
  fsPath :: string
  folderName :: string

text \<open>
  \<open>DebugService.launchDebug\<close>. The parser is constructed and the ports are resolved ahead
  of the \<^verbatim>\<open>try\<close> block, which lies inside the callback given to \<open>withProgress\<close>: what these two
  throw is the caller's answer. The call of \<open>withProgress\<close> is not awaited: once the ports
  are accepted the caller gets its answer, whatever the flow does. The result is the
  caller's answer, and the world when everything has ended, if it does.
\<close>

definition launchDebug ::
  "env \<Rightarrow> workspaceFolder option \<Rightarrow> world \<Rightarrow> (error + unit) \<times> world option"
where
  "launchDebug e workspaceFolder w =
     (case workspaceFolder of
        None \<Rightarrow> (Inr (), Some w)
      | Some folder \<Rightarrow>
          (let dockerfilePath = pathJoin e (fsPath folder) ''Dockerfile'' in
           if \<not> existsSync e dockerfilePath then
             (Inr (), Some (showErrorMessage
                (''No Dockerfile found at the workspace '' @ folderName folder) w))
           else
             (case newDockerfileParser e dockerfilePath of
                Inl err \<Rightarrow> (Inl err, Some w)
              | Inr dockerParser \<Rightarrow>
                  (let (debugProvider, w1) =
                         getDebugProvider e (Some (getBaseImage dockerParser)) w
                   in case debugProvider of
                        None \<Rightarrow> (Inr (), Some w1)
                      | Some pr \<Rightarrow>
                          if \<not> isDebuggerInstalled e pr then (Inr (), Some w1)
                          else
                            (let cwd = fsPath folder;
                                 dockerImageUser = imageUser e
                             in case resolvePortsFromFile pr e dockerParser [] w1 of
                                  (Inl err, containerEnv, w2) \<Rightarrow> (Inl err, Some w2)
                                | (Inr pinfo, containerEnv, w2) \<Rightarrow>
                                    if \<not> truthy (debug pinfo) then
                                      (Inr (), Some (showErrorMessage
                                         ''Cannot resolve debug port from Dockerfile.'' w2))
                                    else if \<not> truthy (app pinfo)
                                            \<or> \<not> numberIsInteger (tpl (app pinfo)) then
                                      (Inr (), Some (showErrorMessage
                                         ''Cannot resolve application port from Dockerfile.'' w2))
                                    else
                                      (Inr (),
                                       map_option snd
                                         (launchFlow e pr cwd dockerImageUser pinfo
                                            containerEnv w2)))))))"

section \<open>Notions used in the statements\<close>

text \<open>A matcher state whose second capture contains an equals sign.\<close>

definition hasEq :: "mstate \<Rightarrow> bool" where
  "hasEq st = (case snd (snd st) 2 of None \<Rightarrow> False | Some g \<Rightarrow> CHR ''='' \<in> set g)"

section \<open>Example environments\<close>

text \<open>
  A Dockerfile of a Node image whose launch line is \<^verbatim>\<open>node --debug app.js\<close>; the parser's
  search is the pattern's match on that line.
\<close>

definition nodeDockerfile :: "string list \<Rightarrow> dockerParser" where
  "nodeDockerfile exposed =
     \<lparr>getBaseImage = ''node:8'', getExposedPorts = exposed,
      searchLaunchArgs = (\<lambda>re. regexMatch re ''node --debug app.js'')\<rparr>"

definition okResult :: "string \<Rightarrow> shellResult" where
  "okResult out = \<lparr>code = 0, stdout = out, stderr = []\<rparr>"

definition failResult :: "string \<Rightarrow> shellResult" where
  "failResult err = \<lparr>code = 1, stdout = [], stderr = err\<rparr>"

text \<open>
  An environment in which every command succeeds (with an empty output, but for the
  version that \<^verbatim>\<open>git describe\<close> prints), no pod is listed, the user cancels
  every prompt, the debugger is installed and the port finder returns the port it is
  asked for, as it is given, and the number 8000 when it is asked for none.
\<close>

definition quietEnv :: env where
  "quietEnv =
     \<lparr>kubectlInvoke = (\<lambda>history cmd. okResult []),
      shellExecCore =
        (\<lambda>opts cmd. if cmd = ''git describe --always --dirty'' then okResult ''v1''
                     else okResult []),
      showQuickPick = (\<lambda>items. None),
      showInputBox = (\<lambda>prompt. None),
      pickProvider = None,
      nodeDebuggerType = ''node'',
      isDebuggerInstalled = (\<lambda>pr. True),
      existsSync = (\<lambda>path. True),
      pathJoin = (\<lambda>a b. a @ ''/'' @ b),
      newDockerfileParser = (\<lambda>path. Inr (nodeDockerfile [''5858''])),
      imageUser = None,
      kubectlPath = None,
      basename = (\<lambda>path. last (splitChar CHR ''/'' path)),
      sanitiseTag = (\<lambda>n. n),
      resolveDockerEnv = Inr [],
      jsonParsePods = (\<lambda>out. Inr (Items [])),
      getPortPromise =
        (\<lambda>history opt. case opt of NoPort \<Rightarrow> Inr (Num 8000) | Port v \<Rightarrow> Inr v),
      startDebugging = (\<lambda>folder n port. True),
      processEvents = []\<rparr>"

definition demoFolder :: workspaceFolder where
  "demoFolder = \<lparr>fsPath = ''/work/app'', folderName = ''app''\<rparr>"

text \<open>The same with a Dockerfile that exposes the debug port and one other port.\<close>

definition appEnv :: env where
  "appEnv = quietEnv\<lparr>newDockerfileParser := (\<lambda>path. Inr (nodeDockerfile [''5858'', ''3000'']))\<rparr>"

text \<open>The same with a Dockerfile whose other exposed port is a placeholder.\<close>

definition placeholderEnv :: env where
  "placeholderEnv =
     quietEnv\<lparr>newDockerfileParser := (\<lambda>path. Inr (nodeDockerfile [''5858'', ''${PORT}'']))\<rparr>"

text \<open>A Dockerfile of a Node image whose launch line has no debug option.\<close>

definition plainDockerfile :: dockerParser where
  "plainDockerfile =
     \<lparr>getBaseImage = ''node:8'', getExposedPorts = [''3000''],
      searchLaunchArgs = (\<lambda>re. regexMatch re ''node app.js'')\<rparr>"

definition plainEnv :: env where
  "plainEnv = quietEnv\<lparr>newDockerfileParser := (\<lambda>path. Inr plainDockerfile)\<rparr>"

text \<open>
  A Dockerfile of a Java image whose parser answers every search with three groups of
  which the second has no equals sign.
\<close>

definition looseDockerfile :: dockerParser where
  "looseDockerfile =
     \<lparr>getBaseImage = ''openjdk:8'', getExposedPorts = [''8080''],
      searchLaunchArgs = (\<lambda>re. Some [Some ''-agentlib:jdwp'', Some ''agentlib'', Some ''jdwp''])\<rparr>"

definition looseEnv :: env where
  "looseEnv = quietEnv\<lparr>newDockerfileParser := (\<lambda>path. Inr looseDockerfile)\<rparr>"

text \<open>A workspace whose \<^verbatim>\<open>Dockerfile\<close> exists and is a directory: the parser cannot read it.\<close>

definition unreadableEnv :: env where
  "unreadableEnv =
     quietEnv\<lparr>newDockerfileParser :=
       (\<lambda>path. Inl (Error ''EISDIR: illegal operation on a directory, read''))\<rparr>"

text \<open>The same with a registry user that names a registry with its port.\<close>

definition registryEnv :: env where
  "registryEnv = quietEnv\<lparr>imageUser := Some ''localhost:5000''\<rparr>"

text \<open>Environments that differ in what the cluster client answers.\<close>

definition withKubectl :: "(string list \<Rightarrow> string \<Rightarrow> shellResult) \<Rightarrow> env" where
  "withKubectl answers = quietEnv\<lparr>kubectlInvoke := answers\<rparr>"

definition runningPod :: env where
  "runningPod = withKubectl (\<lambda>history cmd. okResult ''web-1 1/1 Running 0 5s'')"

text \<open>A pod that is pending at the first query and running from the second on.\<close>

definition pendingPod :: env where
  "pendingPod = withKubectl (\<lambda>history cmd.
     if history = [] then okResult ''web-1 0/1 Pending 0 1s''
     else okResult ''web-1 1/1 Running 0 5s'')"

definition failedPod :: env where
  "failedPod = withKubectl (\<lambda>history cmd.
     if cmd = ''logs pod/web-1'' then okResult ''boom'' else okResult ''web-1 0/1 Error 0 9s'')"

definition deleteFails :: env where
  "deleteFails = withKubectl (\<lambda>history cmd. failResult ''not found'')"

text \<open>A process listing with a header of three columns, a short line and a shell.\<close>

definition psListing :: string where
  "psListing = ''UID PID CMD'' @ [CHR 0x0A] @ ''x'' @ [CHR 0x0A] @ ''root 1 bash''"

definition psEnv :: env where
  "psEnv = withKubectl (\<lambda>history cmd. okResult psListing)"

definition forwardingLine :: string where
  "forwardingLine = ''Forwarding from 127.0.0.1:54321 -> 5005''"

text \<open>The world after \<open>launchDebug\<close> in \<open>appEnv\<close>: no pod is listed, so the flow fails after
  the deployment and removes it.\<close>

definition appWorld :: world where
  "appWorld =
     world0\<lparr>shellCmds := [''git describe --always --dirty'', ''docker build -t app:v1 .''],
            invoked :=
              [''run app-debug-0 --image=app:v1  --image-pull-policy=Never --port=3000 --port=5858'',
               ''get pods -o json -l run=app-debug-0'',
               ''delete deployment/app-debug-0''],
            errorMessages := [''Failed to find debug pod.''],
            channel :=
              [(''app:v1 built.'', Some ''Docker build''),
               (''Debug(Launch) on kubernetes failed. See the errors: Error: Failed to find debug pod..'',
                None),
               (''Resource deployment/app-debug-0 is removed successfully.'',
                Some ''Delete debug resource'')],
            executed := [''extension.vsKubernetesRefreshExplorer'']\<rparr>"

section \<open>Properties\<close>

subsection \<open>The matcher\<close>

lemma firstSome_SomeD: "firstSome f xs = Some y \<Longrightarrow> \<exists>x. x \<in> set xs \<and> f x = Some y"
  by (induction xs) (auto split: option.splits)

lemma mt_Lit:
  "mt ic (Lit l) (p, s, c) k = Some x \<Longrightarrow>
     \<exists>s'. litMatch ic l s = Some s' \<and> k (p + length l, s', c) = Some x"
  by (auto split: option.splits)

lemma mt_Star:
  assumes "mt ic (Star cs) (p, s, c) k = Some x"
  shows "\<exists>j. k (p + j, drop j s, c) = Some x"
proof -
  from assms have "firstSome (\<lambda>j. k (p + j, drop j s, c))
      (rev [0..<Suc (length (takeWhile (inCset cs) s))]) = Some x"
    by (simp only: mt.simps)
  from firstSome_SomeD[OF this] show ?thesis by blast
qed

lemma mt_Plus:
  assumes "mt ic (Plus cs) (p, s, c) k = Some x"
  shows "\<exists>j. k (p + j, drop j s, c) = Some x"
proof -
  from assms have "firstSome (\<lambda>j. k (p + j, drop j s, c))
      (rev [1..<Suc (length (takeWhile (inCset cs) s))]) = Some x"
    by (simp only: mt.simps)
  from firstSome_SomeD[OF this] show ?thesis by blast
qed

text \<open>A successful match ends in a success of its continuation.\<close>

lemma mt_through: "mt ic r st k = Some x \<Longrightarrow> \<exists>st'. k st' = Some x"
proof (induction r arbitrary: st k)
  case (Lit l)
  then show ?case by (cases st) (auto split: option.splits)
next
  case (Star cs)
  obtain p s c where "st = (p, s, c)" by (cases st)
  with Star mt_Star[of ic cs p s c k x] show ?case by blast
next
  case (Plus cs)
  obtain p s c where "st = (p, s, c)" by (cases st)
  with Plus mt_Plus[of ic cs p s c k x] show ?case by blast
next
  case (Opt r)
  show ?case
  proof (cases "mt ic r st k")
    case None
    with Opt.prems have "k st = Some x" by simp
    then show ?thesis by blast
  next
    case (Some y)
    with Opt.prems have "mt ic r st k = Some x" by simp
    from Opt.IH[OF this] show ?thesis .
  qed
next
  case (Alt a b)
  show ?case
  proof (cases "mt ic a st k")
    case None
    with Alt.prems have "mt ic b st k = Some x" by simp
    from Alt.IH(2)[OF this] show ?thesis .
  next
    case (Some y)
    with Alt.prems have "mt ic a st k = Some x" by simp
    from Alt.IH(1)[OF this] show ?thesis .
  qed
next
  case (Grp n r)
  obtain p s c where st: "st = (p, s, c)" by (cases st)
  from Grp.prems st
  have "mt ic r (p, s, c) (\<lambda>(p', s', c'). k (p', s', c'(n \<mapsto> take (p' - p) s))) = Some x"
    by simp
  from Grp.IH[OF this] show ?case by (auto simp: split_def)
next
  case (Seq a b)
  from Seq.prems have "mt ic a st (\<lambda>st'. mt ic b st' k) = Some x" by simp
  from Seq.IH(1)[OF this] obtain st' where "mt ic b st' k = Some x" by blast
  from Seq.IH(2)[OF this] show ?case .
next
  case Bol
  then show ?case by (cases st) (auto split: if_splits)
qed

lemma mt_Seq_through: "mt ic (Seq a b) st k = Some x \<Longrightarrow> \<exists>st'. mt ic b st' k = Some x"
  using mt_through[of ic a st "\<lambda>st'. mt ic b st' k" x] by simp

lemma canonicalize_eq_sign: "canonicalize ic c = CHR ''='' \<Longrightarrow> c = CHR ''=''"
  by (auto simp: canonicalize_def split: if_splits option.splits)

lemma litMatch_nth:
  "litMatch ic l s = Some s' \<Longrightarrow> i < length l \<Longrightarrow>
     i < length s \<and> canonicalize ic (l ! i) = canonicalize ic (s ! i)"
proof (induction ic l s arbitrary: i rule: litMatch.induct)
  case (3 ic x l y s)
  then show ?case by (cases i) (auto split: if_splits)
qed auto

text \<open>The group \<^verbatim>\<open>(address=[^\s,]+)\<close> captures a text with an equals sign.\<close>

lemma address_group:
  assumes "mt ic (Grp 2 (Seq (Lit ''address='') (Plus NonWhiteComma))) st k = Some x"
  shows "\<exists>st'. hasEq st' \<and> k st' = Some x"
proof -
  obtain p s c where st: "st = (p, s, c)" by (cases st)
  let ?k = "\<lambda>(p', s', c'). k (p', s', c'(2 \<mapsto> take (p' - p) s))"
  from assms st
  have "mt ic (Lit ''address='') (p, s, c) (\<lambda>st'. mt ic (Plus NonWhiteComma) st' ?k) = Some x"
    by simp
  from mt_Lit[OF this] obtain s1 where lm: "litMatch ic ''address='' s = Some s1"
    and pl: "mt ic (Plus NonWhiteComma) (p + length ''address='', s1, c) ?k = Some x"
    by blast
  from mt_Plus[OF pl] obtain j where
    kj: "?k (p + length ''address='' + j, drop j s1, c) = Some x"
    by blast
  define n where "n = p + length ''address='' + j"
  from kj have k: "k (n, drop j s1, c(2 \<mapsto> take (n - p) s)) = Some x"
    unfolding n_def by (simp only: prod.case)
  have n: "7 < n - p" by (simp add: n_def)
  have ceq: "canonicalize ic CHR ''='' = CHR ''=''" by (simp add: canonicalize_def)
  from litMatch_nth[OF lm, of 7] have len: "7 < length s"
    and "canonicalize ic CHR ''='' = canonicalize ic (s ! 7)"
    by simp_all
  with ceq have "s ! 7 = CHR ''=''" by (simp add: canonicalize_eq_sign)
  with len n have "take (n - p) s ! 7 = CHR ''='' \<and> 7 < length (take (n - p) s)"
    by simp
  then have "CHR ''='' \<in> set (take (n - p) s)"
    by (metis nth_mem)
  then have "hasEq (n, drop j s1, c(2 \<mapsto> take (n - p) s))"
    by (simp add: hasEq_def)
  with k show ?thesis by blast
qed

lemma fullJava_hasEq:
  assumes "mt ic (pattern fullJavaDebugOptsRegExp) st Some = Some x"
  shows "hasEq x"
proof -
  have pat: "pattern fullJavaDebugOptsRegExp =
     Seq Bol
    (Seq (Lit ''java'')
    (Seq (Plus White)
    (Seq (Star Dot)
    (Seq (Grp 1 (Alt (Lit ''-agentlib'') (Lit ''-Xrunjdwp'')))
    (Seq (Lit '':'')
    (Seq (Star NonWhite)
    (Seq (Grp 2 (Seq (Lit ''address='') (Plus NonWhiteComma)))
         (Star NonWhite))))))))"
    by (simp add: fullJavaDebugOptsRegExp_def)
  from assms[unfolded pat] obtain st1 where
    "mt ic (Seq (Grp 2 (Seq (Lit ''address='') (Plus NonWhiteComma))) (Star NonWhite)) st1 Some
       = Some x"
    by (blast dest: mt_Seq_through)
  then have "mt ic (Grp 2 (Seq (Lit ''address='') (Plus NonWhiteComma))) st1
               (\<lambda>st'. mt ic (Star NonWhite) st' Some) = Some x"
    by simp
  from address_group[OF this] obtain st2 where h: "hasEq st2"
    and s: "mt ic (Star NonWhite) st2 Some = Some x" by blast
  obtain p s0 c where st2: "st2 = (p, s0, c)" by (cases st2)
  from mt_Star[OF s[unfolded st2]] obtain j where "x = (p + j, drop j s0, c)" by auto
  with h st2 show ?thesis by (simp add: hasEq_def)
qed

lemma java_hasEq:
  assumes "mt ic (pattern javaDebugOptsRegExp) st Some = Some x"
  shows "hasEq x"
proof -
  have pat: "pattern javaDebugOptsRegExp =
     Seq (Grp 1 (Alt (Lit ''-agentlib'') (Lit ''-Xrunjdwp'')))
    (Seq (Lit '':'')
    (Seq (Star NonWhite)
         (Grp 2 (Seq (Lit ''address='') (Plus NonWhiteComma)))))"
    by (simp add: javaDebugOptsRegExp_def)
  from assms[unfolded pat] obtain st1 where
    "mt ic (Grp 2 (Seq (Lit ''address='') (Plus NonWhiteComma))) st1 Some = Some x"
    by (blast dest: mt_Seq_through)
  from address_group[OF this] show ?thesis by auto
qed

lemma search_SomeD:
  "search re p s = Some m \<Longrightarrow>
     \<exists>p0 s0 x. mt (ignoreCase re) (pattern re) (p0, s0, \<lambda>_. None) Some = Some x
        \<and> m = matchArray re p0 s0 x"
proof (induction s arbitrary: p)
  case Nil
  show ?case
  proof (cases "mt (ignoreCase re) (pattern re) (p, [], \<lambda>_. None) Some")
    case None
    with Nil.prems show ?thesis by (subst (asm) search.simps) simp
  next
    case (Some x)
    with Nil.prems have "m = matchArray re p [] x" by (subst (asm) search.simps) simp
    with Some show ?thesis by blast
  qed
next
  case (Cons a s)
  show ?case
  proof (cases "mt (ignoreCase re) (pattern re) (p, a # s, \<lambda>_. None) Some")
    case None
    with Cons.prems have "search re (Suc p) s = Some m" by (subst (asm) search.simps) simp
    from Cons.IH[OF this] show ?thesis .
  next
    case (Some x)
    with Cons.prems have "m = matchArray re p (a # s) x" by (subst (asm) search.simps) simp
    with Some show ?thesis by blast
  qed
qed

lemma matchArray_two_groups:
  assumes "groups (pattern re) = 2" and "hasEq x"
  shows "length (matchArray re p s x) = 3
         \<and> (\<exists>g. grp (matchArray re p s x) 2 = Some g \<and> CHR ''='' \<in> set g)"
proof -
  have "[1..<Suc 2] = [1, 2::nat]" by (simp add: upt_rec)
  with assms(1) have "matchArray re p s x = [Some (take (fst x - p) s), snd (snd x) 1, snd (snd x) 2]"
    by (simp add: matchArray_def)
  with assms(2) show ?thesis
    by (auto simp: hasEq_def grp_def split: option.splits)
qed

lemma fullJava_match:
  assumes "regexMatch fullJavaDebugOptsRegExp s = Some m"
  shows "length m = 3 \<and> (\<exists>g. grp m 2 = Some g \<and> CHR ''='' \<in> set g)"
proof -
  from search_SomeD[OF assms[unfolded regexMatch_def]] obtain p0 s0 x where
    mt: "mt (ignoreCase fullJavaDebugOptsRegExp) (pattern fullJavaDebugOptsRegExp)
           (p0, s0, \<lambda>_. None) Some = Some x"
    and m: "m = matchArray fullJavaDebugOptsRegExp p0 s0 x"
    by blast
  have "groups (pattern fullJavaDebugOptsRegExp) = 2"
    by (simp add: fullJavaDebugOptsRegExp_def)
  from matchArray_two_groups[OF this fullJava_hasEq[OF mt]] m show ?thesis by simp
qed

lemma java_match:
  assumes "regexMatch javaDebugOptsRegExp s = Some m"
  shows "\<exists>g. grp m 2 = Some g \<and> CHR ''='' \<in> set g"
proof -
  from search_SomeD[OF assms[unfolded regexMatch_def]] obtain p0 s0 x where
    mt: "mt (ignoreCase javaDebugOptsRegExp) (pattern javaDebugOptsRegExp)
           (p0, s0, \<lambda>_. None) Some = Some x"
    and m: "m = matchArray javaDebugOptsRegExp p0 s0 x"
    by blast
  have "groups (pattern javaDebugOptsRegExp) = 2"
    by (simp add: javaDebugOptsRegExp_def)
  from matchArray_two_groups[OF this java_hasEq[OF mt]] m show ?thesis by simp
qed

subsection \<open>Strings\<close>

lemma splitChar_nonempty: "splitChar c s \<noteq> []"
  by (induction s) (auto split: list.splits)

lemma splitChar_length: "c \<in> set g \<Longrightarrow> 2 \<le> length (splitChar c g)"
proof (induction g)
  case Nil
  then show ?case by simp
next
  case (Cons a g)
  then show ?case
    using splitChar_nonempty[of c g] by (cases "splitChar c g") (auto split: list.splits)
qed

lemma splitChar_prefix: "c \<notin> set a \<Longrightarrow> splitChar c (a @ c # b) = a # splitChar c b"
  by (induction a) auto

lemma lastIndexOf_absent: "c \<notin> set s \<Longrightarrow> lastIndexOf c s = - 1"
proof -
  assume "c \<notin> set s"
  then have "filter (\<lambda>i. s ! i = c) (rev [0..<length s]) = []"
    by (auto simp: filter_empty_conv)
  then show ?thesis by (simp add: lastIndexOf_def)
qed

lemma lastIndexOf_present: "c \<in> set s \<Longrightarrow> 0 \<le> lastIndexOf c s"
proof -
  assume "c \<in> set s"
  then have "filter (\<lambda>i. s ! i = c) (rev [0..<length s]) \<noteq> []"
    by (auto simp: filter_empty_conv in_set_conv_nth)
  then show ?thesis by (simp add: lastIndexOf_def split: list.splits)
qed

subsection \<open>The resolvers never throw\<close>

lemma javaAddressPort_pod:
  "regexMatch fullJavaDebugOptsRegExp s = Some m \<Longrightarrow> \<exists>d. javaAddressPort m = Inr d"
  by (auto simp: javaAddressPort_def nth_opt_def
        dest!: fullJava_match splitChar_length[where c="CHR ''=''"])

lemma javaAddressPort_file:
  "regexMatch javaDebugOptsRegExp s = Some m \<Longrightarrow> \<exists>d. javaAddressPort m = Inr d"
  by (auto simp: javaAddressPort_def nth_opt_def
        dest!: java_match splitChar_length[where c="CHR ''=''"])

lemma javaScan_total: "\<exists>d. javaScan n ls = Inr d"
  by (induction ls) (auto simp: Let_def split: option.splits dest: javaAddressPort_pod)

lemma scan_skip:
  "length (columns line) < n \<Longrightarrow>
     nodeScan n (line # rest) = nodeScan n rest \<and> javaScan n (line # rest) = javaScan n rest"
  by (simp add: Let_def)

lemma nodeScan_no_match:
  "list_all (\<lambda>l. regexMatch fullNodeDebugOptsRegExp (commandOf n (columns l)) = None) ls \<Longrightarrow>
     nodeScan n ls = None"
  by (induction ls) (auto simp: Let_def)

lemma javaScan_no_match:
  "list_all (\<lambda>l. regexMatch fullJavaDebugOptsRegExp (commandOf n (columns l)) = None) ls \<Longrightarrow>
     javaScan n ls = Inr None"
  by (induction ls) (auto simp: Let_def)

lemma scanListing_total:
  assumes "\<And>n ls. \<exists>d. scan n ls = Inr d"
  shows "\<exists>d. scanListing scan out = Inr d"
  using assms splitChar_nonempty[of "CHR 0x0A" out]
  by (cases "splitChar CHR 0x0A out") (auto simp: scanListing_def)

lemma resolveFromPod_total:
  assumes "\<And>n ls. \<exists>d. scan n ls = Inr d"
  shows "\<exists>pinfo w'. resolveFromPod scan prompt e pod container w = (Inr pinfo, w')"
proof -
  obtain r w1 where i: "invokeAsync e (execCmd pod container) w = (r, w1)"
    by (cases "invokeAsync e (execCmd pod container) w")
  from scanListing_total[of scan "stdout r", OF assms] obtain d where
    "scanListing scan (stdout r) = Inr d"
    by blast
  with i show ?thesis
    by (auto simp: resolveFromPod_def Let_def split_def)
qed

lemma javaAddressPort_throws: "javaAddressPort m = Inl err \<Longrightarrow> err = TypeError"
  by (auto simp: javaAddressPort_def split: option.splits)

lemma resolvePortsFromFile_throws:
  assumes "fst (resolvePortsFromFile pr e parser cenv w) = Inl err"
  shows "pr = JavaProvider \<and> err = TypeError"
proof (cases pr)
  case NodeProvider
  with assms show ?thesis by (simp add: resolvePortsFromFile_def split_def Let_def)
next
  case JavaProvider
  with assms show ?thesis
    by (auto simp: resolvePortsFromFile_def javaResolvePortsFromFile_def split_def Let_def
          split: option.splits sum.splits if_splits dest: javaAddressPort_throws)
qed

subsection \<open>The launch flow\<close>

lemma deleteResource_returns: "fst (deleteResource e rid w) = Inr ()"
  by (simp add: deleteResource_def Let_def split_def)

lemma deleteResource_attaches: "attaches (snd (deleteResource e rid w)) = attaches w"
  by (simp add: deleteResource_def invokeAsync_def showOutput_def executeCommand_def Let_def)

lemma catchBlock_returns: "fst (catchBlock e appName err w) = Inr ()"
  by (simp add: catchBlock_def Let_def split: prod.splits sum.splits)

lemma launchFlow_returns: "launchFlow e pr cwd user pinfo cenv w = Some (r, w') \<Longrightarrow> r = Inr ()"
  using catchBlock_returns
  by (auto simp: launchFlow_def Let_def split: option.splits prod.splits sum.splits promise.splits)
     (metis fst_conv)+

lemma launchDebug_throws:
  "fst (launchDebug e folder w) = Inl err \<longleftrightarrow>
     (\<exists>f. folder = Some f
        \<and> existsSync e (pathJoin e (fsPath f) ''Dockerfile'')
        \<and> (newDockerfileParser e (pathJoin e (fsPath f) ''Dockerfile'') = Inl err
           \<or> (\<exists>dp p w1.
                 newDockerfileParser e (pathJoin e (fsPath f) ''Dockerfile'') = Inr dp
                 \<and> getDebugProvider e (Some (getBaseImage dp)) w = (Some p, w1)
                 \<and> isDebuggerInstalled e p
                 \<and> fst (resolvePortsFromFile p e dp [] w1) = Inl err)))"
  by (auto simp: launchDebug_def Let_def split: option.splits sum.splits prod.splits if_splits)

subsection \<open>The handlers of the session\<close>

lemma runEvents_started:
  "isStarted s \<Longrightarrow> runEvents e an wsf dt pd pa (map StdoutData ms) (s, w) = (s, w)"
  by (induction ms) simp_all

lemma onEvent_first:
  "regexTest forwardingRegExp m \<Longrightarrow>
     isStarted (fst (onEvent e an wsf dt pd pa (StdoutData m) (session0, w)))
     \<and> length (attaches (snd (onEvent e an wsf dt pd pa (StdoutData m) (session0, w))))
         = Suc (length (attaches w))"
  by (simp add: session0_def Let_def settle_def)

lemma runEvents_first_match:
  "runEvents e an wsf dt pd pa (map StdoutData msgs) (session0, w) =
     (case dropWhile (\<lambda>m. \<not> regexTest forwardingRegExp m) msgs of
        [] \<Rightarrow> (session0, w)
      | m # later \<Rightarrow> onEvent e an wsf dt pd pa (StdoutData m) (session0, w))"
proof (induction msgs)
  case Nil
  then show ?case by simp
next
  case (Cons m msgs)
  show ?case
  proof (cases "regexTest forwardingRegExp m")
    case True
    obtain s' w' where ev: "onEvent e an wsf dt pd pa (StdoutData m) (session0, w) = (s', w')"
      by (cases "onEvent e an wsf dt pd pa (StdoutData m) (session0, w)")
    with onEvent_first[OF True, of e an wsf dt pd pa w] have "isStarted s'" by simp
    from runEvents_started[OF this] ev True show ?thesis by simp
  next
    case False
    with Cons.IH show ?thesis by simp
  qed
qed

lemma onEvent_attaches:
  "length (attaches (snd (onEvent e an wsf dt pd pa ev (s, w))))
     + (if isStarted (fst (onEvent e an wsf dt pd pa ev (s, w))) then 0 else 1)
     \<le> length (attaches w) + (if isStarted s then 0 else 1)"
  by (cases ev)
     (auto simp: Let_def settle_def showOutput_def executeCommand_def killProcess_def
        deleteResource_attaches)

lemma runEvents_attaches:
  "length (attaches (snd (runEvents e an wsf dt pd pa evs (s, w))))
     \<le> length (attaches w) + (if isStarted s then 0 else 1)"
proof (induction evs arbitrary: s w)
  case Nil
  then show ?case by simp
next
  case (Cons ev evs)
  obtain s' w' where ev: "onEvent e an wsf dt pd pa ev (s, w) = (s', w')"
    by (cases "onEvent e an wsf dt pd pa ev (s, w)")
  from Cons.IH[of s' w'] onEvent_attaches[of e an wsf dt pd pa ev s w] ev
  show ?case by (auto split: if_splits)
qed

subsection \<open>The image reference\<close>

text \<open>
  With a name and a registry user that contain no colon (and a name without a slash), the
  user prefix that \<open>runDockerImageInK8s\<close> reads back from the image reference is empty
  exactly when no registry user is configured.
\<close>

lemma imageUserOf_no_user:
  assumes "CHR '':'' \<notin> set name" and "CHR ''/'' \<notin> set name"
  shows "imageUserOf (imageRef None name version) = []"
  using assms splitChar_prefix[of "CHR '':''" name version]
  by (simp add: imageUserOf_def imageRef_def truthy_def imageNameOf_def lastIndexOf_absent
        substring_def)

lemma imageUserOf_user:
  assumes "truthy user" and "CHR '':'' \<notin> set (tpl user)" and "CHR '':'' \<notin> set name"
  shows "imageUserOf (imageRef user name version) \<noteq> []"
proof -
  let ?n = "tpl user @ ''/'' @ name"
  from assms have c: "CHR '':'' \<notin> set ?n" by simp
  have n: "imageNameOf (imageRef user name version) = ?n"
    using assms(1) splitChar_prefix[OF c, of version]
    by (simp add: imageRef_def imageNameOf_def)
  have "0 \<le> lastIndexOf CHR ''/'' ?n" by (rule lastIndexOf_present) simp
  moreover from assms(1) have "?n \<noteq> []" by (auto simp: truthy_def tpl_def split: option.splits)
  ultimately show ?thesis
    by (cases ?n)
       (auto simp: imageUserOf_def n substring_def Let_def min_def max_def simp del: append.simps)
qed

subsection \<open>Evaluation at the examples\<close>

lemmas rx = regexMatch_def regexTest_def search.simps matchArray_def canonicalize_def
  isSpace_def isLower_def isLineTerminator_def isWordChar_def isDigit_def isUpper_def

lemma okResult_sel:
  "code (okResult out) = 0" "stdout (okResult out) = out" "stderr (okResult out) = []"
  by (simp_all add: okResult_def)

lemma failResult_sel:
  "code (failResult err) = 1" "stdout (failResult err) = []" "stderr (failResult err) = err"
  by (simp_all add: failResult_def)

lemma node_launch_line:
  "regexMatch nodeDebugOptsRegExp ''node --debug app.js''
     = Some [Some ''--debug'', Some ''--'', Some ''debug'', None]"
  by (simp add: rx nodeDebugOptsRegExp_def)

lemma placeholder_3000: "regexMatch placeholderRegExp ''3000'' = None"
  by (simp add: rx placeholderRegExp_def)

lemma forwarding_line: "regexTest forwardingRegExp forwardingLine"
  by (simp add: rx forwardingRegExp_def forwardingLine_def)

lemma node_bash: "regexMatch fullNodeDebugOptsRegExp ''bash'' = None"
  by (simp add: rx fullNodeDebugOptsRegExp_def)

lemma java_bash: "regexMatch fullJavaDebugOptsRegExp ''bash'' = None"
  by (simp add: rx fullJavaDebugOptsRegExp_def)

lemma ps_columns:
  "columns ''UID PID CMD'' = [''UID'', ''PID'', ''CMD'']"
  "columns ''x'' = [''x'']"
  "columns ''root 1 bash'' = [''root'', ''1'', ''bash'']"
  by (simp_all add: columns_def trim_def isSpace_def)

lemma ps_command: "commandOf 3 [''root'', ''1'', ''bash''] = ''bash''"
  by (simp add: commandOf_def slice_def)

lemma ps_lines: "splitChar CHR 0x0A psListing = [''UID PID CMD'', ''x'', ''root 1 bash'']"
  by (simp add: psListing_def)

lemma status_running: "podStatus (okResult ''web-1 1/1 Running 0 5s'') = Some ''Running''"
  by (simp add: podStatus_def okResult_def nth_opt_def isSpace_def)

lemma status_pending: "podStatus (okResult ''web-1 0/1 Pending 0 1s'') = Some ''Pending''"
  by (simp add: podStatus_def okResult_def nth_opt_def isSpace_def)

lemma status_error: "podStatus (okResult ''web-1 0/1 Error 0 9s'') = Some ''Error''"
  by (simp add: podStatus_def okResult_def nth_opt_def isSpace_def)

lemma node_resolution:
  "nodeResolvePortsFromFile e (nodeDockerfile [''5858'']) [] w
     = (\<lparr>debug = Some ''5858'', app = None\<rparr>, [], w)"
  "nodeResolvePortsFromFile e (nodeDockerfile [''5858'', ''3000'']) [] w
     = (\<lparr>debug = Some ''5858'', app = Some ''3000''\<rparr>, [], w)"
  by (simp_all add: nodeResolvePortsFromFile_def nodeDockerfile_def node_launch_line truthy_def
        grp_def Let_def resolveAppPort_def tpl_def)

lemma plain_launch_line: "regexMatch nodeDebugOptsRegExp ''node app.js'' = None"
  by (simp add: rx nodeDebugOptsRegExp_def)

lemma file_resolution:
  "resolvePortsFromFile NodeProvider e (nodeDockerfile [''5858'']) [] w
     = (Inr \<lparr>debug = Some ''5858'', app = None\<rparr>, [], w)"
  "resolvePortsFromFile NodeProvider e (nodeDockerfile [''5858'', ''3000'']) [] w
     = (Inr \<lparr>debug = Some ''5858'', app = Some ''3000''\<rparr>, [], w)"
  "resolvePortsFromFile NodeProvider e (nodeDockerfile [''5858'', ''${PORT}'']) [] w
     = (Inr \<lparr>debug = Some ''5858'', app = Some ''${PORT}''\<rparr>, [], w)"
  by (simp_all add: resolvePortsFromFile_def nodeResolvePortsFromFile_def nodeDockerfile_def
        node_launch_line truthy_def grp_def Let_def resolveAppPort_def tpl_def)

lemma plain_resolution:
  "resolvePortsFromFile NodeProvider e plainDockerfile [] w
     = (Inr \<lparr>debug = None, app = None\<rparr>, [], w)"
  by (simp add: resolvePortsFromFile_def nodeResolvePortsFromFile_def plainDockerfile_def
        plain_launch_line truthy_def Let_def)

lemma loose_resolution:
  "resolvePortsFromFile JavaProvider e looseDockerfile [] w = (Inl TypeError, [], w)"
  by (simp add: resolvePortsFromFile_def javaResolvePortsFromFile_def looseDockerfile_def
        javaAddressPort_def grp_def nth_opt_def)

lemma node_provider:
  "getDebugProvider e (Some (getBaseImage (nodeDockerfile exposed))) w = (Some NodeProvider, w)"
  by (simp add: getDebugProvider_def nodeDockerfile_def truthy_def tpl_def supportedProviders_def
        isSupportedImage_def)

lemma plain_provider:
  "getDebugProvider e (Some (getBaseImage plainDockerfile)) w = (Some NodeProvider, w)"
  by (simp add: getDebugProvider_def plainDockerfile_def truthy_def tpl_def
        supportedProviders_def isSupportedImage_def)

lemma loose_provider:
  "getDebugProvider e (Some (getBaseImage looseDockerfile)) w = (Some JavaProvider, w)"
  by (simp add: getDebugProvider_def looseDockerfile_def truthy_def tpl_def
        supportedProviders_def isSupportedImage_def)

lemma number_texts:
  "stringToNumber ''3000'' = Finite 3000 0"
  "stringToNumber ''${PORT}'' = NaN"
  "stringToNumber ''3000.5'' = Finite 30005 (- 1)"
  "stringToNumber '' 3e3 '' = Finite 3 3"
  "stringToNumber ''0x1F'' = Finite 31 0"
  "stringToNumber ''80 80'' = NaN"
  by (simp_all add: stringToNumber_def strDecimal_def nonDecimal_def digitsVal_def digitVal_def
        trim_def isSpace_def isDigit_def Let_def)

lemma floorLog2_3000: "floorLog2 3000 = 11" "floorLog2 3001 = 11"
  by (simp_all add: floorLog2.simps)

text \<open>A whole number is an integer for \<^verbatim>\<open>Number\<close> unless it rounds to infinity.\<close>

lemma roundsToInteger_whole: "roundsToInteger a (Suc 0) \<longleftrightarrow> a < 2 ^ 1024 - 2 ^ 970"
  by (auto simp: roundsToInteger_def Let_def)

lemma rounded_3000_5: "\<not> roundsToInteger 30005 10"
  by (simp add: roundsToInteger_def floorLog2_3000 Let_def)

text \<open>What \<^verbatim>\<open>Number.isInteger(Number(s))\<close> says of some port texts.\<close>

lemma port_numbers:
  "numberIsInteger ''3000''"
  "\<not> numberIsInteger ''${PORT}''"
  "\<not> numberIsInteger ''3000.5''"
  "numberIsInteger '' 3e3 ''"
  "numberIsInteger ''0x1F''"
  "\<not> numberIsInteger ''80 80''"
  by (simp_all add: numberIsInteger_def number_texts roundsToInteger_whole rounded_3000_5)

lemma app_build:
  "buildDockerImage appEnv ''/work/app'' None world0 =
     (Inr ''app:v1'',
      world0\<lparr>shellCmds := [''git describe --always --dirty'', ''docker build -t app:v1 .''],
              channel := [(''app:v1 built.'', Some ''Docker build'')]\<rparr>)"
  by (simp add: buildDockerImage_def findVersion_def execCore_def appEnv_def quietEnv_def
        world0_def okResult_sel truthy_def imageRef_def trim_def isSpace_def showOutput_def
        Let_def)

lemma app_run:
  "runDockerImageInK8s appEnv ''app:v1'' [Some ''3000'', Some ''5858''] [] w =
     (Inr (''app-debug-'' @ showNat (now w)),
      w\<lparr>invoked := invoked w @
         [''run app-debug-'' @ showNat (now w)
            @ '' --image=app:v1  --image-pull-policy=Never --port=3000 --port=5858'']\<rparr>)"
  by (simp add: runDockerImageInK8s_def runCmd_def baseNameOf_def imageUserOf_def imageNameOf_def
        lastIndexOf_def substring_def substringFrom_def invokeAsync_def appEnv_def quietEnv_def
        okResult_sel truthy_def tpl_def Let_def)

lemma app_flow:
  "launchFlow appEnv NodeProvider ''/work/app'' None
     \<lparr>debug = Some ''5858'', app = Some ''3000''\<rparr> [] world0 = Some (Inr (), appWorld)"
  apply (simp add: launchFlow_def deploy_def app_build app_run)
  apply (simp add: findPods_def invokeAsync_def appEnv_def quietEnv_def okResult_sel world0_def
      showNat.simps showErrorMessage_def catchBlock_def deleteResource_def showOutput_def
      executeCommand_def truthy_def tpl_def Let_def appWorld_def)
  done

text \<open>
  When the port finder answers numbers, and for a number it is asked to start from a number
  that is no smaller, the test of \<open>createPortForward\<close> keeps the two local ports apart.
\<close>

lemma forwarding_ports_differ_for_numbers:
  assumes numbers: "\<forall>h s p. getPortPromise e h (Port (Str s)) = Inr p \<longrightarrow> (\<exists>m. p = Num m)"
    and finder: "\<forall>h n p. getPortPromise e h (Port (Num n)) = Inr p \<longrightarrow> (\<exists>m. p = Num m \<and> n \<le> m)"
    and res: "createPortForward e podName debugPort appPort w = (Inr r, w')"
    and fwd: "truthy appPort"
  shows "proxyDebugPort r \<noteq> proxyAppPort r"
  using res fwd
  by (auto simp: createPortForward_def getPort_def split: if_splits sum.splits prod.splits
        dest!: finder[rule_format] numbers[rule_format])

subsection \<open>The claims\<close>

text \<open>
  C1, as stated, at an example. The claim says that a launch whose port resolution
  gives a debug port and no application port goes on to build and deploy. In \<open>quietEnv\<close>
  the Dockerfile exposes only the debug port, the resolution gives \<open>debug = "5858"\<close> and no
  application port, and \<open>launchDebug\<close> shows the error of the application port and returns:
  no shell command (build) and no cluster command (deploy) has run.
\<close>

theorem launchDebug_aborts_without_app_port:
  "newDockerfileParser quietEnv (pathJoin quietEnv (fsPath demoFolder) ''Dockerfile'')
     = Inr (nodeDockerfile [''5858''])
   \<and> resolvePortsFromFile NodeProvider quietEnv (nodeDockerfile [''5858'']) [] world0
     = (Inr \<lparr>debug = Some ''5858'', app = None\<rparr>, [], world0)
   \<and> launchDebug quietEnv (Some demoFolder) world0
     = (Inr (),
        Some (world0\<lparr>errorMessages := [''Cannot resolve application port from Dockerfile.'']\<rparr>))"
proof (intro conjI)
  show "newDockerfileParser quietEnv (pathJoin quietEnv (fsPath demoFolder) ''Dockerfile'')
     = Inr (nodeDockerfile [''5858''])"
    by (simp add: quietEnv_def)
  show "resolvePortsFromFile NodeProvider quietEnv (nodeDockerfile [''5858'']) [] world0
     = (Inr \<lparr>debug = Some ''5858'', app = None\<rparr>, [], world0)"
    by (rule file_resolution(1))
  have p: "newDockerfileParser quietEnv path = Inr (nodeDockerfile [''5858''])" for path
    by (simp add: quietEnv_def)
  show "launchDebug quietEnv (Some demoFolder) world0
     = (Inr (),
        Some (world0\<lparr>errorMessages := [''Cannot resolve application port from Dockerfile.'']\<rparr>))"
    unfolding launchDebug_def
    apply (simp add: p node_provider file_resolution Let_def)
    apply (simp add: quietEnv_def truthy_def showErrorMessage_def world0_def)
    done
qed

text \<open>
  C1, amended. Once the Dockerfile is parsed, a provider chosen, its debugger installed
  and the ports resolved, \<open>launchDebug\<close> validates both ports. Without a debug port it shows
  \<open>Cannot resolve debug port from Dockerfile.\<close> and returns. With a debug port and without an
  application port, and also with an application port that \<^verbatim>\<open>Number\<close> does not read as an
  integer, it shows \<open>Cannot resolve application port from Dockerfile.\<close> and returns. Showing
  a message adds no shell command and no cluster command. Only with a debug port and an
  application port that is an integer does it go on with the flow of build and deployment.
\<close>

theorem launchDebug_port_validation:
  assumes "existsSync e (pathJoin e (fsPath folder) ''Dockerfile'')"
    and "newDockerfileParser e (pathJoin e (fsPath folder) ''Dockerfile'') = Inr parser"
    and "getDebugProvider e (Some (getBaseImage parser)) w = (Some pr, w1)"
    and "isDebuggerInstalled e pr"
    and "resolvePortsFromFile pr e parser [] w1 = (Inr pinfo, cenv, w2)"
  shows "(\<not> truthy (debug pinfo) \<longrightarrow>
           launchDebug e (Some folder) w =
             (Inr (), Some (showErrorMessage ''Cannot resolve debug port from Dockerfile.'' w2)))
       \<and> (truthy (debug pinfo) \<and> \<not> truthy (app pinfo) \<longrightarrow>
           launchDebug e (Some folder) w =
             (Inr (), Some (showErrorMessage ''Cannot resolve application port from Dockerfile.'' w2)))
       \<and> (truthy (debug pinfo) \<and> truthy (app pinfo) \<and> \<not> numberIsInteger (tpl (app pinfo)) \<longrightarrow>
           launchDebug e (Some folder) w =
             (Inr (), Some (showErrorMessage ''Cannot resolve application port from Dockerfile.'' w2)))
       \<and> (truthy (debug pinfo) \<and> truthy (app pinfo) \<and> numberIsInteger (tpl (app pinfo)) \<longrightarrow>
           launchDebug e (Some folder) w =
             (Inr (), map_option snd (launchFlow e pr (fsPath folder) (imageUser e) pinfo cenv w2)))
       \<and> shellCmds (showErrorMessage msg w2) = shellCmds w2
       \<and> invoked (showErrorMessage msg w2) = invoked w2"
  using assms by (simp add: launchDebug_def Let_def showErrorMessage_def)

text \<open>
  C1, the amended claim at four examples: \<open>plainEnv\<close>, where no debug port is resolved;
  \<open>quietEnv\<close>, where no application port is resolved; \<open>placeholderEnv\<close>, where the application
  port is the text \<^verbatim>\<open>${PORT}\<close>; and \<open>appEnv\<close>, where the application port is \<open>"3000"\<close> and the image
  is built and deployed.
\<close>

theorem launchDebug_port_validation_witness:
  "launchDebug plainEnv (Some demoFolder) world0
     = (Inr (), Some (world0\<lparr>errorMessages := [''Cannot resolve debug port from Dockerfile.'']\<rparr>))
   \<and> launchDebug quietEnv (Some demoFolder) world0
     = (Inr (),
        Some (world0\<lparr>errorMessages := [''Cannot resolve application port from Dockerfile.'']\<rparr>))
   \<and> launchDebug placeholderEnv (Some demoFolder) world0
     = (Inr (),
        Some (world0\<lparr>errorMessages := [''Cannot resolve application port from Dockerfile.'']\<rparr>))
   \<and> launchDebug appEnv (Some demoFolder) world0 = (Inr (), Some appWorld)"
proof (intro conjI)
  have ex: "existsSync plainEnv (pathJoin plainEnv (fsPath demoFolder) ''Dockerfile'')"
    by (simp add: plainEnv_def quietEnv_def)
  have p: "newDockerfileParser plainEnv (pathJoin plainEnv (fsPath demoFolder) ''Dockerfile'')
             = Inr plainDockerfile"
    by (simp add: plainEnv_def quietEnv_def)
  have inst: "isDebuggerInstalled plainEnv NodeProvider" by (simp add: plainEnv_def quietEnv_def)
  from launchDebug_port_validation[OF ex p plain_provider inst plain_resolution]
  show "launchDebug plainEnv (Some demoFolder) world0
     = (Inr (), Some (world0\<lparr>errorMessages := [''Cannot resolve debug port from Dockerfile.'']\<rparr>))"
    by (simp add: truthy_def showErrorMessage_def world0_def)
next
  have ex: "existsSync quietEnv (pathJoin quietEnv (fsPath demoFolder) ''Dockerfile'')"
    by (simp add: quietEnv_def)
  have p: "newDockerfileParser quietEnv (pathJoin quietEnv (fsPath demoFolder) ''Dockerfile'')
             = Inr (nodeDockerfile [''5858''])"
    by (simp add: quietEnv_def)
  have inst: "isDebuggerInstalled quietEnv NodeProvider" by (simp add: quietEnv_def)
  from launchDebug_port_validation[OF ex p node_provider inst file_resolution(1)]
  show "launchDebug quietEnv (Some demoFolder) world0
     = (Inr (),
        Some (world0\<lparr>errorMessages := [''Cannot resolve application port from Dockerfile.'']\<rparr>))"
    by (simp add: truthy_def showErrorMessage_def world0_def)
next
  have ex: "existsSync placeholderEnv (pathJoin placeholderEnv (fsPath demoFolder) ''Dockerfile'')"
    by (simp add: placeholderEnv_def quietEnv_def)
  have p: "newDockerfileParser placeholderEnv
             (pathJoin placeholderEnv (fsPath demoFolder) ''Dockerfile'')
             = Inr (nodeDockerfile [''5858'', ''${PORT}''])"
    by (simp add: placeholderEnv_def quietEnv_def)
  have inst: "isDebuggerInstalled placeholderEnv NodeProvider"
    by (simp add: placeholderEnv_def quietEnv_def)
  from launchDebug_port_validation[OF ex p node_provider inst file_resolution(3)]
  show "launchDebug placeholderEnv (Some demoFolder) world0
     = (Inr (),
        Some (world0\<lparr>errorMessages := [''Cannot resolve application port from Dockerfile.'']\<rparr>))"
    by (simp add: truthy_def tpl_def port_numbers showErrorMessage_def world0_def)
next
  have ex: "existsSync appEnv (pathJoin appEnv (fsPath demoFolder) ''Dockerfile'')"
    by (simp add: appEnv_def quietEnv_def)
  have p: "newDockerfileParser appEnv (pathJoin appEnv (fsPath demoFolder) ''Dockerfile'')
             = Inr (nodeDockerfile [''5858'', ''3000''])"
    by (simp add: appEnv_def quietEnv_def)
  have inst: "isDebuggerInstalled appEnv NodeProvider" by (simp add: appEnv_def quietEnv_def)
  have u: "imageUser appEnv = None" "fsPath demoFolder = ''/work/app''"
    by (simp_all add: appEnv_def quietEnv_def demoFolder_def)
  from launchDebug_port_validation[OF ex p node_provider inst file_resolution(2)]
  show "launchDebug appEnv (Some demoFolder) world0 = (Inr (), Some appWorld)"
    by (simp add: truthy_def tpl_def port_numbers u app_flow)
qed

text \<open>
  C2. When the attach step reports failure the port-forward process should be killed
  and the flow aborted. Here the debugger answers \<open>False\<close> to every attach; the handler of
  the first forwarding line still resolves the promise, kills nothing and keeps its two
  listeners, because it tests the promise and not its value.
\<close>

theorem startDebug_ignores_attach_failure:
  "onEvent (quietEnv\<lparr>startDebugging := (\<lambda>folder n port. False)\<rparr>) (Some ''app-debug-1'')
      ''/work/app'' ''node'' (Num 54321) (Num 0) (StdoutData forwardingLine) (session0, world0)
   = (session0\<lparr>isStarted := True, settled := Resolved, sessionName := Some ''app-debug-1'',
               listening := True\<rparr>,
      world0\<lparr>listeners := 2, attaches := [(''/work/app'', ''app-debug-1'', Num 54321)]\<rparr>)"
  by (simp add: forwarding_line session0_def world0_def settle_def truthy_def tpl_def Let_def)

text \<open>
  C3. With the exposed ports \<open>["5858","3000","4000"]\<close> and the debug port \<open>"5858"\<close> the Node
  resolver prompts with \<open>["3000","4000"]\<close>; the claim says that the choice \<open>"3000"\<close> becomes
  the application port. The resolver keeps the choice only when it is a placeholder, so
  here the application port stays unset.
\<close>

theorem node_selected_app_port_dropped:
  "nodeResolvePortsFromFile (quietEnv\<lparr>showQuickPick := (\<lambda>items. Some ''3000'')\<rparr>)
     (nodeDockerfile [''5858'', ''3000'', ''4000'']) [] world0
   = (\<lparr>debug = Some ''5858'', app = None\<rparr>, [], world0\<lparr>picks := [[''3000'', ''4000'']]\<rparr>)"
  by (simp add: nodeResolvePortsFromFile_def nodeDockerfile_def node_launch_line truthy_def
      grp_def Let_def resolveAppPort_def quickPick_def quietEnv_def tpl_def world0_def
      placeholder_3000)

text \<open>
  C4. With a selected container, the process listing should be requested as
  \<^verbatim>\<open>exec <pod> -c <container> -- ps -ef\<close> with the container's own name. The command the
  resolvers build for pod \<open>web-1\<close> and container \<open>app\<close> carries the literal text
  \<^verbatim>\<open>${selectedContainer}\<close> instead of \<open>app\<close>.
\<close>

theorem execCmd_container_literal:
  "execCmd ''web-1'' (Some ''app'') = ''exec web-1 -c ${selectedContainer} -- ps -ef''
   \<and> execCmd ''web-1'' (Some ''app'') \<noteq> ''exec web-1 -c app -- ps -ef''"
  by (simp add: execCmd_def truthy_def)

text \<open>
  C5. One query of \<open>waitForRunningPod\<close> that succeeds and reads the status \<open>status\<close>:
  \<open>"Running"\<close> ends the wait with success; \<open>"ContainerCreating"\<close>, \<open>"Pending"\<close> and
  \<open>"Succeeded"\<close> sleep 1000 milliseconds and query again; any other status (also a missing
  one) throws, after a message to the output channel that ends with what the \<open>logs\<close>
  command printed (its standard output when it succeeded, its error output otherwise).
\<close>

theorem waitForRunningPod_status:
  assumes "kubectlInvoke e (invoked w) (''get pod/'' @ podName @ '' --no-headers'') = r"
    and "code r = 0"
    and "w2 = showOutput (''pod/'' @ podName @ '' status: '' @ tpl (podStatus r))
                (Some ''Query pod status'')
                (w\<lparr>invoked := invoked w @ [''get pod/'' @ podName @ '' --no-headers'']\<rparr>)"
    and "kubectlInvoke e (invoked w2) (''logs pod/'' @ podName) = logs"
  shows "(podStatus r = Some ''Running'' \<longrightarrow> waitForRunningPod e podName w = Some (Inr (), w2))
       \<and> (podStatus r \<in> {Some ''ContainerCreating'', Some ''Pending'', Some ''Succeeded''} \<longrightarrow>
            waitForRunningPod e podName w = waitForRunningPod e podName (sleep 1000 w2)
            \<and> slept (sleep 1000 w2) = slept w @ [1000])
       \<and> (podStatus r \<notin> {Some ''Running'', Some ''ContainerCreating'', Some ''Pending'',
                           Some ''Succeeded''} \<longrightarrow>
            (\<exists>err w'. waitForRunningPod e podName w = Some (Inl err, w')
               \<and> channel w' = channel w2
                    @ [(podFailureOutput podName (podStatus r) logs, Some ''Query pod status'')]
               \<and> (\<exists>pre. podFailureOutput podName (podStatus r) logs
                     = pre @ (if code logs = 0 then stdout logs else stderr logs))))"
  using assms
  apply (subst (1 2 4) waitForRunningPod.simps)
  apply (auto simp: Let_def invokeAsync_def showOutput_def showErrorMessage_def sleep_def
           podFailureOutput_def)
  done

text \<open>
  C5 at three examples: a running pod; a pod that is pending at the first query and
  running at the second, which is waited for with one sleep of a second; and a pod in the
  status \<open>Error\<close> whose logs are \<open>boom\<close>.
\<close>

theorem waitForRunningPod_status_witness:
  "waitForRunningPod runningPod ''web-1'' world0 =
     Some (Inr (),
           world0\<lparr>invoked := [''get pod/web-1 --no-headers''],
                   channel := [(''pod/web-1 status: Running'', Some ''Query pod status'')]\<rparr>)
   \<and> waitForRunningPod pendingPod ''web-1'' world0 =
       Some (Inr (),
             world0\<lparr>invoked := [''get pod/web-1 --no-headers'', ''get pod/web-1 --no-headers''],
                     channel := [(''pod/web-1 status: Pending'', Some ''Query pod status''),
                                 (''pod/web-1 status: Running'', Some ''Query pod status'')],
                     slept := [1000], now := 1000\<rparr>)
   \<and> (\<exists>err w'. waitForRunningPod failedPod ''web-1'' world0 = Some (Inl err, w')
         \<and> (\<exists>pre. fst (last (channel w')) = pre @ ''boom''))"
proof (intro conjI)
  have k: "kubectlInvoke runningPod (invoked world0) (''get pod/'' @ ''web-1'' @ '' --no-headers'')
             = okResult ''web-1 1/1 Running 0 5s''"
    by (simp add: runningPod_def withKubectl_def quietEnv_def)
  from waitForRunningPod_status[OF k okResult_sel(1) refl refl]
  show "waitForRunningPod runningPod ''web-1'' world0 =
     Some (Inr (),
           world0\<lparr>invoked := [''get pod/web-1 --no-headers''],
                   channel := [(''pod/web-1 status: Running'', Some ''Query pod status'')]\<rparr>)"
    by (simp add: status_running world0_def showOutput_def tpl_def)
next
  let ?w1 = "world0\<lparr>invoked := [''get pod/web-1 --no-headers''],
                 channel := [(''pod/web-1 status: Pending'', Some ''Query pod status'')],
                 slept := [1000], now := 1000\<rparr>"
  have k: "kubectlInvoke pendingPod (invoked world0) (''get pod/'' @ ''web-1'' @ '' --no-headers'')
             = okResult ''web-1 0/1 Pending 0 1s''"
    by (simp add: pendingPod_def withKubectl_def quietEnv_def world0_def)
  from waitForRunningPod_status[OF k okResult_sel(1) refl refl]
  have first: "waitForRunningPod pendingPod ''web-1'' world0 = waitForRunningPod pendingPod ''web-1'' ?w1"
    by (simp add: status_pending world0_def showOutput_def sleep_def tpl_def)
  have k2: "kubectlInvoke pendingPod (invoked ?w1) (''get pod/'' @ ''web-1'' @ '' --no-headers'')
             = okResult ''web-1 1/1 Running 0 5s''"
    by (simp add: pendingPod_def withKubectl_def quietEnv_def world0_def)
  from waitForRunningPod_status[OF k2 okResult_sel(1) refl refl]
  have "waitForRunningPod pendingPod ''web-1'' ?w1 =
       Some (Inr (),
             world0\<lparr>invoked := [''get pod/web-1 --no-headers'', ''get pod/web-1 --no-headers''],
                     channel := [(''pod/web-1 status: Pending'', Some ''Query pod status''),
                                 (''pod/web-1 status: Running'', Some ''Query pod status'')],
                     slept := [1000], now := 1000\<rparr>)"
    by (simp add: status_running world0_def showOutput_def tpl_def)
  with first show "waitForRunningPod pendingPod ''web-1'' world0 =
       Some (Inr (),
             world0\<lparr>invoked := [''get pod/web-1 --no-headers'', ''get pod/web-1 --no-headers''],
                     channel := [(''pod/web-1 status: Pending'', Some ''Query pod status''),
                                 (''pod/web-1 status: Running'', Some ''Query pod status'')],
                     slept := [1000], now := 1000\<rparr>)"
    by simp
next
  have k: "kubectlInvoke failedPod (invoked world0) (''get pod/'' @ ''web-1'' @ '' --no-headers'')
             = okResult ''web-1 0/1 Error 0 9s''"
    by (simp add: failedPod_def withKubectl_def quietEnv_def)
  have l: "kubectlInvoke failedPod h (''logs pod/'' @ ''web-1'') = okResult ''boom''" for h
    by (simp add: failedPod_def withKubectl_def quietEnv_def)
  from waitForRunningPod_status[OF k okResult_sel(1) refl l]
  obtain err w' where r: "waitForRunningPod failedPod ''web-1'' world0 = Some (Inl err, w')"
    and ch: "channel w' =
       channel (showOutput (''pod/'' @ ''web-1'' @ '' status: '' @ tpl (Some ''Error''))
                  (Some ''Query pod status'')
                  (world0\<lparr>invoked := invoked world0 @ [''get pod/'' @ ''web-1'' @ '' --no-headers'']\<rparr>))
         @ [(podFailureOutput ''web-1'' (Some ''Error'') (okResult ''boom''),
             Some ''Query pod status'')]"
    by (auto simp: status_error)
  have "\<exists>pre. podFailureOutput ''web-1'' (Some ''Error'') (okResult ''boom'') = pre @ ''boom''"
    by (simp add: podFailureOutput_def okResult_sel)
  with r ch show "\<exists>err w'. waitForRunningPod failedPod ''web-1'' world0 = Some (Inl err, w')
         \<and> (\<exists>pre. fst (last (channel w')) = pre @ ''boom'')"
    by auto
qed

text \<open>
  C6. Whatever lines the port-forward process prints, the handlers attach the debugger
  at most once: running them on the lines is the same as handling the first line that
  matches \<^verbatim>\<open>Forwarding from 127.0.0.1:\<close> alone, so every later line is ignored, and the number
  of attach calls grows by one if some line matches and by none otherwise. For any events
  at all (output, close, session events) it grows by at most one.
\<close>

theorem attach_at_most_once:
  "runEvents e an wsf dt pd pa (map StdoutData msgs) (session0, w) =
     (case dropWhile (\<lambda>m. \<not> regexTest forwardingRegExp m) msgs of
        [] \<Rightarrow> (session0, w)
      | m # later \<Rightarrow> onEvent e an wsf dt pd pa (StdoutData m) (session0, w))
   \<and> length (attaches (snd (runEvents e an wsf dt pd pa (map StdoutData msgs) (session0, w))))
       = length (attaches w) + (if list_ex (regexTest forwardingRegExp) msgs then 1 else 0)
   \<and> length (attaches (snd (runEvents e an wsf dt pd pa evs (session0, w))))
       \<le> length (attaches w) + 1"
proof (intro conjI)
  show "runEvents e an wsf dt pd pa (map StdoutData msgs) (session0, w) =
     (case dropWhile (\<lambda>m. \<not> regexTest forwardingRegExp m) msgs of
        [] \<Rightarrow> (session0, w)
      | m # later \<Rightarrow> onEvent e an wsf dt pd pa (StdoutData m) (session0, w))"
    by (rule runEvents_first_match)
next
  show "length (attaches (snd (runEvents e an wsf dt pd pa (map StdoutData msgs) (session0, w))))
       = length (attaches w) + (if list_ex (regexTest forwardingRegExp) msgs then 1 else 0)"
  proof (cases "dropWhile (\<lambda>m. \<not> regexTest forwardingRegExp m) msgs")
    case Nil
    then have "\<not> list_ex (regexTest forwardingRegExp) msgs"
      by (auto simp: list_ex_iff dropWhile_eq_Nil_conv)
    with Nil show ?thesis by (simp add: runEvents_first_match del: dropWhile_eq_Nil_conv)
  next
    case (Cons m later)
    then have m: "regexTest forwardingRegExp m"
      by (metis hd_dropWhile list.sel(1) list.distinct(1))
    from Cons have "m \<in> set msgs" by (metis list.set_intros(1) set_dropWhileD)
    with m have "list_ex (regexTest forwardingRegExp) msgs" by (auto simp: list_ex_iff)
    with Cons onEvent_first[OF m, of e an wsf dt pd pa w] show ?thesis
      by (simp add: runEvents_first_match del: dropWhile_eq_Nil_conv)
  qed
next
  show "length (attaches (snd (runEvents e an wsf dt pd pa evs (session0, w))))
       \<le> length (attaches w) + 1"
    using runEvents_attaches[of e an wsf dt pd pa evs session0 w] by (simp add: session0_def)
qed

text \<open>
  C6 at the example of the forwarding line printed twice: the debugger is attached once.
\<close>

theorem attach_at_most_once_witness:
  "length (attaches (snd (runEvents quietEnv (Some ''app-debug-0'') ''/work/app'' ''node''
      (Num 54321) (Num 0) (map StdoutData [forwardingLine, forwardingLine])
      (session0, world0)))) = 1"
proof -
  note once = attach_at_most_once[of quietEnv "Some ''app-debug-0''" "''/work/app''" "''node''"
      "Num 54321" "Num 0" "[forwardingLine, forwardingLine]" world0 "[]"]
  from once[THEN conjunct2, THEN conjunct1] show ?thesis
    by (simp add: forwarding_line world0_def)
qed

text \<open>
  C7, as stated, at an example. The claim says that no failure of the launch reaches the
  caller of \<open>launchDebug\<close>. In \<open>unreadableEnv\<close> the workspace has a \<^verbatim>\<open>Dockerfile\<close> that cannot be
  read, the constructor of the parser throws, and \<open>launchDebug\<close> ends with that error for
  its caller: nothing is shown and nothing is logged.
\<close>

theorem launchDebug_rejects_unreadable_dockerfile:
  "existsSync unreadableEnv (pathJoin unreadableEnv (fsPath demoFolder) ''Dockerfile'')
   \<and> launchDebug unreadableEnv (Some demoFolder) world0
     = (Inl (Error ''EISDIR: illegal operation on a directory, read''), Some world0)"
  by (simp add: launchDebug_def unreadableEnv_def quietEnv_def Let_def)

text \<open>
  C7, amended. Cleanup does not fail: when the \<open>delete\<close> command exits with a non-zero code,
  \<open>deleteResource\<close> writes the error to the output channel and returns; it returns normally
  for every answer of the cluster, also when called a second time for the same resource;
  the \<^verbatim>\<open>catch\<close> block of the flow returns normally; and the flow that \<open>launchDebug\<close> starts
  under \<open>withProgress\<close> (build, deployment, the wait for the pod, the port forward and the
  debug session) never ends with an exception. \<open>launchDebug\<close> itself ends with an exception
  for its caller in two cases and no other: the constructor of the Dockerfile parser
  throws, or the resolution of the ports throws; both run ahead of the \<^verbatim>\<open>try\<close> block. The
  resolution of the ports throws nothing but a \<open>TypeError\<close>, and only in the Java resolver.
\<close>

theorem cleanup_best_effort:
  "(code (kubectlInvoke e (invoked w) (''delete '' @ rid)) \<noteq> 0 \<longrightarrow>
      deleteResource e rid w =
        (Inr (),
         w\<lparr>invoked := invoked w @ [''delete '' @ rid],
            channel := channel w @
              [(''Kubectl command failed: ''
                  @ stderr (kubectlInvoke e (invoked w) (''delete '' @ rid)),
                Some ''Delete debug resource'')]\<rparr>))
   \<and> fst (deleteResource e rid w) = Inr ()
   \<and> fst (deleteResource e rid (snd (deleteResource e rid w))) = Inr ()
   \<and> fst (catchBlock e appName err w) = Inr ()
   \<and> (\<forall>r w'. launchFlow e pr cwd user pinfo cenv w = Some (r, w') \<longrightarrow> r = Inr ())
   \<and> (fst (launchDebug e folder w) = Inl err \<longleftrightarrow>
        (\<exists>f. folder = Some f
           \<and> existsSync e (pathJoin e (fsPath f) ''Dockerfile'')
           \<and> (newDockerfileParser e (pathJoin e (fsPath f) ''Dockerfile'') = Inl err
              \<or> (\<exists>dp p w1.
                    newDockerfileParser e (pathJoin e (fsPath f) ''Dockerfile'') = Inr dp
                    \<and> getDebugProvider e (Some (getBaseImage dp)) w = (Some p, w1)
                    \<and> isDebuggerInstalled e p
                    \<and> fst (resolvePortsFromFile p e dp [] w1) = Inl err))))
   \<and> (fst (resolvePortsFromFile pr e parser cenv w) = Inl err \<longrightarrow>
        pr = JavaProvider \<and> err = TypeError)"
proof (intro conjI)
  show "code (kubectlInvoke e (invoked w) (''delete '' @ rid)) \<noteq> 0 \<longrightarrow>
      deleteResource e rid w =
        (Inr (),
         w\<lparr>invoked := invoked w @ [''delete '' @ rid],
            channel := channel w @
              [(''Kubectl command failed: ''
                  @ stderr (kubectlInvoke e (invoked w) (''delete '' @ rid)),
                Some ''Delete debug resource'')]\<rparr>)"
    by (simp add: deleteResource_def invokeAsync_def showOutput_def Let_def)
  show "fst (deleteResource e rid w) = Inr ()"
    by (rule deleteResource_returns)
  show "fst (deleteResource e rid (snd (deleteResource e rid w))) = Inr ()"
    by (rule deleteResource_returns)
  show "fst (catchBlock e appName err w) = Inr ()"
    by (rule catchBlock_returns)
  show "\<forall>r w'. launchFlow e pr cwd user pinfo cenv w = Some (r, w') \<longrightarrow> r = Inr ()"
    using launchFlow_returns by blast
  show "fst (launchDebug e folder w) = Inl err \<longleftrightarrow>
        (\<exists>f. folder = Some f
           \<and> existsSync e (pathJoin e (fsPath f) ''Dockerfile'')
           \<and> (newDockerfileParser e (pathJoin e (fsPath f) ''Dockerfile'') = Inl err
              \<or> (\<exists>dp p w1.
                    newDockerfileParser e (pathJoin e (fsPath f) ''Dockerfile'') = Inr dp
                    \<and> getDebugProvider e (Some (getBaseImage dp)) w = (Some p, w1)
                    \<and> isDebuggerInstalled e p
                    \<and> fst (resolvePortsFromFile p e dp [] w1) = Inl err)))"
    by (rule launchDebug_throws)
  show "fst (resolvePortsFromFile pr e parser cenv w) = Inl err \<longrightarrow>
        pr = JavaProvider \<and> err = TypeError"
    using resolvePortsFromFile_throws by blast
qed

text \<open>
  C7, amended, at examples: a cluster that answers \<open>not found\<close> to the \<open>delete\<close> command; the
  flow in \<open>appEnv\<close>, which fails to find its pod, removes the deployment and returns
  normally, as \<open>launchDebug\<close> does there; and \<open>looseEnv\<close>, where the parser's answer to the
  search is no match of the Java pattern, the Java resolver throws a \<open>TypeError\<close> and
  \<open>launchDebug\<close> ends with it.
\<close>

theorem cleanup_best_effort_witness:
  "deleteResource deleteFails ''deployment/app-debug-0'' world0 =
     (Inr (),
      world0\<lparr>invoked := [''delete deployment/app-debug-0''],
              channel := [(''Kubectl command failed: not found'', Some ''Delete debug resource'')]\<rparr>)
   \<and> (\<exists>w'. launchFlow appEnv NodeProvider ''/work/app'' None
               \<lparr>debug = Some ''5858'', app = Some ''3000''\<rparr> [] world0 = Some (Inr (), w'))
   \<and> fst (launchDebug appEnv (Some demoFolder) world0) = Inr ()
   \<and> fst (resolvePortsFromFile JavaProvider looseEnv looseDockerfile [] world0) = Inl TypeError
   \<and> fst (launchDebug looseEnv (Some demoFolder) world0) = Inl TypeError"
proof -
  note failing = cleanup_best_effort[of deleteFails world0 "''deployment/app-debug-0''" None NoReason
      NodeProvider "''/work/app''" None "\<lparr>debug = Some ''5858'', app = Some ''3000''\<rparr>" "[]"
      "Some demoFolder" looseDockerfile]
  note flow = cleanup_best_effort[of appEnv world0 "''deployment/app-debug-0''" None _
      NodeProvider "''/work/app''" None "\<lparr>debug = Some ''5858'', app = Some ''3000''\<rparr>" "[]"
      "Some demoFolder" looseDockerfile]
  note loose = cleanup_best_effort[of looseEnv world0 "''deployment/app-debug-0''" None TypeError
      JavaProvider "''/work/app''" None "\<lparr>debug = Some ''5858'', app = Some ''3000''\<rparr>" "[]"
      "Some demoFolder" looseDockerfile]
  have k: "kubectlInvoke deleteFails h cmd = failResult ''not found''" for h cmd
    by (simp add: deleteFails_def withKubectl_def quietEnv_def)
  from failing have a: "deleteResource deleteFails ''deployment/app-debug-0'' world0 =
     (Inr (),
      world0\<lparr>invoked := [''delete deployment/app-debug-0''],
              channel := [(''Kubectl command failed: not found'', Some ''Delete debug resource'')]\<rparr>)"
    by (simp add: k failResult_sel world0_def)
  from flow app_flow
  have b: "\<exists>w'. launchFlow appEnv NodeProvider ''/work/app'' None
               \<lparr>debug = Some ''5858'', app = Some ''3000''\<rparr> [] world0 = Some (Inr (), w')"
    by blast
  have c: "fst (launchDebug appEnv (Some demoFolder) world0) = Inr ()"
  proof (cases "fst (launchDebug appEnv (Some demoFolder) world0)")
    case (Inl x)
    have "newDockerfileParser appEnv path = Inr (nodeDockerfile [''5858'', ''3000''])" for path
      by (simp add: appEnv_def quietEnv_def)
    with Inl flow[of x] have "\<exists>p w1. fst (resolvePortsFromFile p appEnv
        (nodeDockerfile [''5858'', ''3000'']) [] w1) = Inl x \<and>
        getDebugProvider appEnv (Some (getBaseImage (nodeDockerfile [''5858'', ''3000''])))
          world0 = (Some p, w1)"
      by auto
    then show ?thesis by (auto simp: node_provider file_resolution)
  next
    case (Inr u)
    then show ?thesis by simp
  qed
  have d: "fst (resolvePortsFromFile JavaProvider looseEnv looseDockerfile [] world0) = Inl TypeError"
    by (simp add: loose_resolution)
  have "existsSync looseEnv (pathJoin looseEnv (fsPath demoFolder) ''Dockerfile'')"
    and "newDockerfileParser looseEnv (pathJoin looseEnv (fsPath demoFolder) ''Dockerfile'')
           = Inr looseDockerfile"
    and "isDebuggerInstalled looseEnv JavaProvider"
    by (simp_all add: looseEnv_def quietEnv_def)
  with loose d loose_provider[of looseEnv world0]
  have f: "fst (launchDebug looseEnv (Some demoFolder) world0) = Inl TypeError"
    by blast
  from a b c d f show ?thesis by blast
qed

text \<open>
  C8. The resolution from a process listing is total. A line with fewer columns than
  the header is skipped by both loops; both resolvers return a \<open>PortInfo\<close> for every answer
  of the cluster and of the user, and never throw; when no line matches, the loops leave
  the debug port unset; and when the listing gives no debug port and the user enters
  nothing, the resolver returns with the debug port unset.
\<close>

theorem pod_listing_total:
  "(length (columns line) < n \<longrightarrow>
      nodeScan n (line # rest) = nodeScan n rest \<and> javaScan n (line # rest) = javaScan n rest)
   \<and> (\<exists>pinfo w'. nodeResolvePortsFromPod e pod container w = (Inr pinfo, w'))
   \<and> (\<exists>pinfo w'. javaResolvePortsFromPod e pod container w = (Inr pinfo, w'))
   \<and> (list_all (\<lambda>l. regexMatch fullNodeDebugOptsRegExp (commandOf m (columns l)) = None) ls
        \<longrightarrow> nodeScan m ls = None)
   \<and> (list_all (\<lambda>l. regexMatch fullJavaDebugOptsRegExp (commandOf m (columns l)) = None) ls
        \<longrightarrow> javaScan m ls = Inr None)
   \<and> (scanListing scan (stdout (kubectlInvoke e (invoked w) (execCmd pod container))) = Inr None
        \<and> \<not> truthy (showInputBox e prompt) \<longrightarrow>
        fst (resolveFromPod scan prompt e pod container w) = Inr \<lparr>debug = None, app = None\<rparr>)"
proof (intro conjI)
  show "length (columns line) < n \<longrightarrow>
      nodeScan n (line # rest) = nodeScan n rest \<and> javaScan n (line # rest) = javaScan n rest"
    using scan_skip by blast
  show "\<exists>pinfo w'. nodeResolvePortsFromPod e pod container w = (Inr pinfo, w')"
    unfolding nodeResolvePortsFromPod_def by (rule resolveFromPod_total) blast
  show "\<exists>pinfo w'. javaResolvePortsFromPod e pod container w = (Inr pinfo, w')"
    unfolding javaResolvePortsFromPod_def by (rule resolveFromPod_total) (rule javaScan_total)
  show "list_all (\<lambda>l. regexMatch fullNodeDebugOptsRegExp (commandOf m (columns l)) = None) ls
        \<longrightarrow> nodeScan m ls = None"
    using nodeScan_no_match by blast
  show "list_all (\<lambda>l. regexMatch fullJavaDebugOptsRegExp (commandOf m (columns l)) = None) ls
        \<longrightarrow> javaScan m ls = Inr None"
    using javaScan_no_match by blast
  show "scanListing scan (stdout (kubectlInvoke e (invoked w) (execCmd pod container))) = Inr None
        \<and> \<not> truthy (showInputBox e prompt) \<longrightarrow>
        fst (resolveFromPod scan prompt e pod container w) = Inr \<lparr>debug = None, app = None\<rparr>"
    by (auto simp: resolveFromPod_def invokeAsync_def inputBox_def Let_def truthy_def)
qed

text \<open>
  C8 at the example of a listing with a header of three columns, the short line \<open>x\<close> and a
  shell: the short line is skipped, no line matches, and with no input from the user the
  Java resolver returns with the debug port unset.
\<close>

theorem pod_listing_total_witness:
  "nodeScan 3 [''x'', ''root 1 bash''] = nodeScan 3 [''root 1 bash'']
   \<and> javaScan 3 [''x'', ''root 1 bash''] = javaScan 3 [''root 1 bash'']
   \<and> nodeScan 3 [''root 1 bash''] = None
   \<and> javaScan 3 [''root 1 bash''] = Inr None
   \<and> fst (javaResolvePortsFromPod psEnv ''web-1'' None world0) = Inr \<lparr>debug = None, app = None\<rparr>"
proof -
  note inst = pod_listing_total[of "''x''" 3 "[''root 1 bash'']" psEnv "''web-1''" None world0 3
      "[''root 1 bash'']" javaScan
      "''Please specify debug port exposed by the container (e.g. 5005)''"]
  have short: "length (columns ''x'') < 3" by (simp add: ps_columns)
  have none: "list_all (\<lambda>l. regexMatch fullNodeDebugOptsRegExp (commandOf 3 (columns l)) = None)
                [''root 1 bash'']"
    "list_all (\<lambda>l. regexMatch fullJavaDebugOptsRegExp (commandOf 3 (columns l)) = None)
                [''root 1 bash'']"
    by (simp_all add: ps_columns ps_command node_bash java_bash)
  from inst short have a: "nodeScan 3 [''x'', ''root 1 bash''] = nodeScan 3 [''root 1 bash'']
      \<and> javaScan 3 [''x'', ''root 1 bash''] = javaScan 3 [''root 1 bash'']"
    by blast
  from inst none have b: "nodeScan 3 [''root 1 bash''] = None \<and> javaScan 3 [''root 1 bash''] = Inr None"
    by blast
  have k: "stdout (kubectlInvoke psEnv h cmd) = psListing" for h cmd
    by (simp add: psEnv_def withKubectl_def quietEnv_def okResult_sel)
  have len: "length (columns ''UID PID CMD'') = 3" by (simp add: ps_columns)
  from a have a2: "javaScan 3 [''x'', ''root 1 bash''] = javaScan 3 [''root 1 bash'']"
    by (rule conjunct2)
  from b have b2: "javaScan 3 [''root 1 bash''] = Inr None"
    by (rule conjunct2)
  have "scanListing javaScan psListing = Inr None"
    unfolding scanListing_def ps_lines by (simp only: list.case len a2 b2)
  moreover have "\<not> truthy (showInputBox psEnv p)" for p
    by (simp add: psEnv_def withKubectl_def quietEnv_def truthy_def)
  ultimately have c: "fst (javaResolvePortsFromPod psEnv ''web-1'' None world0)
      = Inr \<lparr>debug = None, app = None\<rparr>"
    using inst by (simp add: k javaResolvePortsFromPod_def)
  from a b c show ?thesis by blast
qed

text \<open>
  C9. A port forward that forwards an application port should have two different local
  ports. In \<open>quietEnv\<close> the finder returns the port it is asked to start from, as it is given,
  and the number 8000 when it is asked for none, so no answer is smaller than what was
  asked. For the application port \<open>"8000"\<close> the finder is given the string and answers the
  string \<open>"8000"\<close>; its answer for the debug port is the number 8000. The test
  \<^verbatim>\<open>proxyDebugPort === proxyAppPort\<close> compares a number with a string and fails, the finder is
  not asked again, and both forwards are made from the local port 8000.
\<close>

theorem forwarding_ports_collide:
  "getPortPromise quietEnv [] (Port (Str ''8000'')) = Inr (Str ''8000'')
   \<and> getPortPromise quietEnv [Port (Str ''8000'')] NoPort = Inr (Num 8000)
   \<and> createPortForward quietEnv ''web-1'' ''5858'' (Some ''8000'') world0 =
       (Inr \<lparr>proxyDebugPort = Num 8000, proxyAppPort = Str ''8000''\<rparr>,
        world0\<lparr>portQueries := [Port (Str ''8000''), NoPort],
                spawned := [(''kubectl'',
                             [''port-forward'', ''web-1'', ''8000:8000'', ''8000:5858''])]\<rparr>)"
  by (simp add: createPortForward_def getPort_def quietEnv_def truthy_def tpl_def world0_def
        showNat.simps)

text \<open>
  C10. The run command should carry \<^verbatim>\<open>--image-pull-policy=Never\<close> exactly when no registry
  user is configured. With the registry user \<open>localhost:5000\<close> the image is built and pushed
  as \<open>localhost:5000/app:v1\<close>; \<open>runDockerImageInK8s\<close> takes the text before the first colon,
  \<open>localhost\<close>, for the image name, finds no user prefix in it, and runs the image with the
  flag (and names the deployment after \<open>localhost\<close>).
\<close>

theorem pull_policy_with_registry_port:
  "truthy (imageUser registryEnv)
   \<and> buildDockerImage registryEnv ''/work/app'' (imageUser registryEnv) world0 =
       (Inr ''localhost:5000/app:v1'',
        world0\<lparr>shellCmds := [''git describe --always --dirty'',
                              ''docker build -t localhost:5000/app:v1 .'',
                              ''docker push localhost:5000/app:v1''],
                channel := [(''localhost:5000/app:v1 built.'', Some ''Docker build''),
                            (''localhost:5000/app:v1 pushed.'', Some ''Docker push'')]\<rparr>)
   \<and> runDockerImageInK8s registryEnv ''localhost:5000/app:v1'' [Some ''3000'', Some ''5858'']
       [] world0 =
       (Inr ''localhost-debug-0'',
        world0\<lparr>invoked := [''run localhost-debug-0 --image=localhost:5000/app:v1''
                             @ ''  --image-pull-policy=Never --port=3000 --port=5858'']\<rparr>)"
proof (intro conjI)
  show "truthy (imageUser registryEnv)"
    by (simp add: registryEnv_def quietEnv_def truthy_def)
  show "buildDockerImage registryEnv ''/work/app'' (imageUser registryEnv) world0 =
       (Inr ''localhost:5000/app:v1'',
        world0\<lparr>shellCmds := [''git describe --always --dirty'',
                              ''docker build -t localhost:5000/app:v1 .'',
                              ''docker push localhost:5000/app:v1''],
                channel := [(''localhost:5000/app:v1 built.'', Some ''Docker build''),
                            (''localhost:5000/app:v1 pushed.'', Some ''Docker push'')]\<rparr>)"
    by (simp add: buildDockerImage_def findVersion_def execCore_def registryEnv_def quietEnv_def
          world0_def okResult_sel truthy_def tpl_def imageRef_def trim_def isSpace_def
          showOutput_def Let_def)
  show "runDockerImageInK8s registryEnv ''localhost:5000/app:v1'' [Some ''3000'', Some ''5858'']
       [] world0 =
       (Inr ''localhost-debug-0'',
        world0\<lparr>invoked := [''run localhost-debug-0 --image=localhost:5000/app:v1''
                             @ ''  --image-pull-policy=Never --port=3000 --port=5858'']\<rparr>)"
    by (simp add: runDockerImageInK8s_def runCmd_def baseNameOf_def imageUserOf_def
          imageNameOf_def lastIndexOf_def substring_def substringFrom_def invokeAsync_def
          registryEnv_def quietEnv_def okResult_sel truthy_def tpl_def Let_def world0_def
          showNat.simps)
qed

end
